(* ===== verification/Prelude.thy ===== *)
theory Prelude
  imports Main
begin

text \<open>
  Shared vocabulary of the model of \<^verbatim>\<open>src/src/App.tsx\<close>: the JavaScript
  operations the components use (optional calls \<^verbatim>\<open>f?.()\<close>,
  \<^verbatim>\<open>String.prototype.toLowerCase\<close>), the way a React parent runs the
  setter closures its children call back, and the lemma collections the
  component theories share.

  Callbacks are kept abstract: a widget returns the list of callbacks it invokes,
  in order, as values of a type variable \<open>'cb\<close>. The parent (the \<^verbatim>\<open>App\<close>
  theory) instantiates \<open>'cb\<close> with state transformers and runs them with
  \<open>invoke_all\<close>. Properties of the widgets are therefore stated for every
  callback type, and the parent's properties follow by instantiation.
\<close>

named_theorems model_defs "definitions of the model that the component proofs unfold"
named_theorems render_simps "evaluation rules for the rendered views"

type_synonym js_string = string

text \<open>\<^verbatim>\<open>onClose?.()\<close>: call the callback once if it is present, otherwise nothing.\<close>

definition optional_call0 :: "'cb option \<Rightarrow> 'cb list" where
  "optional_call0 f = (case f of None \<Rightarrow> [] | Some c \<Rightarrow> [c])"

text \<open>\<^verbatim>\<open>onChange?.(v)\<close>: the same for a callback that takes an argument.\<close>

definition optional_call :: "('a \<Rightarrow> 'cb) option \<Rightarrow> 'a \<Rightarrow> 'cb list" where
  "optional_call f x = (case f of None \<Rightarrow> [] | Some c \<Rightarrow> [c x])"

text \<open>
  \<^verbatim>\<open>toLowerCase\<close> on the ASCII range (the only characters the toggle values
  contain): \<^verbatim>\<open>A\<close>..\<^verbatim>\<open>Z\<close> (65..90) move up by 32, every other character is kept.
\<close>

definition js_lower_char :: "char \<Rightarrow> char" where
  "js_lower_char c =
     (let n = (of_char c :: nat) in if 65 \<le> n \<and> n \<le> 90 then char_of (n + 32) else c)"

definition js_to_lower :: "js_string \<Rightarrow> js_string" where
  "js_to_lower s = map js_lower_char s"

text \<open>
  A React parent runs the state setters its children invoked during one event, in
  the order they were invoked (React batches them into one update).
\<close>

definition invoke_all :: "('s \<Rightarrow> 's) list \<Rightarrow> 's \<Rightarrow> 's" where
  "invoke_all cbs s = fold (\<lambda>c. c) cbs s"

declare optional_call0_def [model_defs] optional_call_def [model_defs]

lemma optional_call0_simps [simp]:
  "optional_call0 None = []"
  "optional_call0 (Some c) = [c]"
  by (simp_all add: optional_call0_def)

lemma optional_call_simps [simp]:
  "optional_call None x = []"
  "optional_call (Some c) x = [c x]"
  by (simp_all add: optional_call_def)

lemma invoke_all_simps [simp]:
  "invoke_all [] s = s"
  "invoke_all (c # cs) s = invoke_all cs (c s)"
  by (simp_all add: invoke_all_def)

lemma invoke_all_append [simp]:
  "invoke_all (xs @ ys) s = invoke_all ys (invoke_all xs s)"
  by (simp add: invoke_all_def)

lemma filter_eq_single:
  "distinct xs \<Longrightarrow> x \<in> set xs \<Longrightarrow> filter (\<lambda>v. v = x) xs = [x]"
  by (induction xs) (auto simp: filter_empty_conv)

end
