(* ===== verification/Icons.thy ===== *)
theory Icons
  imports Prelude
begin

text \<open>
  The icon table \<^verbatim>\<open>Icons\<close> of \<^verbatim>\<open>App.tsx\<close> (lines 5--12): an object literal from
  six string keys to Material icon components. TypeScript's
  \<^verbatim>\<open>keyof typeof Icons\<close> (the type of the widgets' \<^verbatim>\<open>icon\<close> prop) is the
  datatype \<open>icon_kind\<close>, the spec's IconKind; at run time the prop is a plain
  string, so the table is an association list on strings, kept in the literal's
  key order because \<^verbatim>\<open>Object.keys(Icons)\<close> (line 286) lists the radio options in
  that order. \<^verbatim>\<open>Icons[icon]\<close> on a key that is not in the table is
  \<^verbatim>\<open>undefined\<close> in JavaScript: \<open>icon_lookup\<close> returns \<open>None\<close> there.
\<close>

datatype icon_kind = Info | NewReleases | Report | Error | Warning | Done

datatype glyph =
    InfoRounded | NewReleasesRounded | ReportRounded | ErrorRounded | WarningRounded
  | DoneRounded | CloseRounded

definition Icons :: "(js_string \<times> glyph) list" where
  "Icons =
     [(''info'', InfoRounded),
      (''newReleases'', NewReleasesRounded),
      (''report'', ReportRounded),
      (''error'', ErrorRounded),
      (''warning'', WarningRounded),
      (''done'', DoneRounded)]"

text \<open>\<^verbatim>\<open>Object.keys(Icons)\<close>: the keys in insertion order.\<close>

definition icon_keys :: "js_string list" where
  "icon_keys = map fst Icons"

text \<open>\<^verbatim>\<open>Icons[icon]\<close>: \<open>None\<close> is JavaScript's \<^verbatim>\<open>undefined\<close>.\<close>

definition icon_lookup :: "js_string \<Rightarrow> glyph option" where
  "icon_lookup k = map_of Icons k"

text \<open>The string a value of type \<^verbatim>\<open>keyof typeof Icons\<close> is at run time.\<close>

fun key_of :: "icon_kind \<Rightarrow> js_string" where
  "key_of Info = ''info''"
| "key_of NewReleases = ''newReleases''"
| "key_of Report = ''report''"
| "key_of Error = ''error''"
| "key_of Warning = ''warning''"
| "key_of Done = ''done''"

instantiation icon_kind :: enum
begin

definition enum_icon_kind :: "icon_kind list" where
  "enum_icon_kind = [Info, NewReleases, Report, Error, Warning, Done]"

definition enum_all_icon_kind :: "(icon_kind \<Rightarrow> bool) \<Rightarrow> bool" where
  "enum_all_icon_kind P \<longleftrightarrow> P Info \<and> P NewReleases \<and> P Report \<and> P Error \<and> P Warning \<and> P Done"

definition enum_ex_icon_kind :: "(icon_kind \<Rightarrow> bool) \<Rightarrow> bool" where
  "enum_ex_icon_kind P \<longleftrightarrow> P Info \<or> P NewReleases \<or> P Report \<or> P Error \<or> P Warning \<or> P Done"

instance
proof
  have univ: "(UNIV :: icon_kind set) = {Info, NewReleases, Report, Error, Warning, Done}"
    using icon_kind.exhaust by auto
  show "(UNIV :: icon_kind set) = set enum_class.enum"
    by (simp add: univ enum_icon_kind_def)
  show "distinct (enum_class.enum :: icon_kind list)"
    by (simp add: enum_icon_kind_def)
  fix P :: "icon_kind \<Rightarrow> bool"
  show "enum_class.enum_all P = Ball UNIV P"
    by (simp add: univ enum_all_icon_kind_def)
  show "enum_class.enum_ex P = Bex UNIV P"
    by (simp add: univ enum_ex_icon_kind_def)
qed

end

text \<open>
  The inverse of \<open>key_of\<close>: reading a run-time string as an icon kind. This is
  a helper for stating the spec's side (the severity table is on kinds); the
  code makes no such check, and the cast \<^verbatim>\<open>as keyof typeof Icons\<close> (line 281)
  checks nothing at run time.
\<close>

definition kind_of_key :: "js_string \<Rightarrow> icon_kind option" where
  "kind_of_key s = map_of (map (\<lambda>k. (key_of k, k)) enum_class.enum) s"

declare Icons_def [model_defs] icon_keys_def [model_defs] icon_lookup_def [model_defs]

lemma icon_keys_eq:
  "icon_keys = [''info'', ''newReleases'', ''report'', ''error'', ''warning'', ''done'']"
  by (simp add: icon_keys_def Icons_def)

lemma icon_keys_as_kinds: "icon_keys = map key_of enum_class.enum"
  by (simp add: icon_keys_eq enum_icon_kind_def)

lemma key_of_inj: "key_of a = key_of b \<longleftrightarrow> a = b"
  by (cases a; cases b) simp_all

lemma key_of_in_icon_keys [simp]: "key_of k \<in> set icon_keys"
  by (simp add: icon_keys_as_kinds enum_UNIV)

lemma icon_keys_cases:
  assumes "s \<in> set icon_keys"
  obtains k where "s = key_of k"
  using assms by (auto simp: icon_keys_as_kinds)

lemma icon_lookup_None_iff [simp]: "icon_lookup k = None \<longleftrightarrow> k \<notin> set icon_keys"
  by (simp add: icon_lookup_def icon_keys_def map_of_eq_None_iff)

lemma icon_lookup_Some_cases:
  assumes "icon_lookup k = Some g"
  obtains c where "k = key_of c"
  using assms that icon_keys_cases by (metis icon_lookup_None_iff option.distinct(1))

lemma kind_of_key_key_of [simp]: "kind_of_key (key_of k) = Some k"
  by (cases k) (simp_all add: kind_of_key_def enum_icon_kind_def)

lemma kind_of_key_Some: "kind_of_key s = Some k \<Longrightarrow> s = key_of k"
  by (auto simp: kind_of_key_def enum_icon_kind_def split: if_splits)

lemma kind_of_key_None: "kind_of_key s = None \<longleftrightarrow> s \<notin> set icon_keys"
  by (auto simp: kind_of_key_def enum_icon_kind_def icon_keys_eq split: if_splits)

text \<open>
  C16. \<^verbatim>\<open>Icons[icon]\<close> gives different keys different glyphs and never the
  close glyph, which the paper widget uses for its own close button.
\<close>

theorem icon_lookup_injective:
  assumes "icon_lookup a = Some g" and "icon_lookup b = Some g"
  shows "a = b \<and> g \<noteq> CloseRounded"
proof -
  from assms(1) obtain ka where a: "a = key_of ka" by (rule icon_lookup_Some_cases)
  from assms(2) obtain kb where b: "b = key_of kb" by (rule icon_lookup_Some_cases)
  from assms a b show ?thesis
    by (cases ka; cases kb) (simp_all add: icon_lookup_def Icons_def)
qed

theorem icon_lookup_injective_witness:
  "icon_lookup ''done'' = Some DoneRounded \<and> ''done'' = ''done'' \<and> DoneRounded \<noteq> CloseRounded"
  using icon_lookup_injective [of "''done''" DoneRounded "''done''"]
  by (simp add: icon_lookup_def Icons_def)

end
