(* ===== verification/Severity.thy ===== *)
theory Severity
  imports Icons
begin

text \<open>
  The severity resolver. Both widgets compute the alert severity from the icon
  prop with the same nested conditional (\<^verbatim>\<open>App.tsx\<close> lines 61--64 in
  \<^verbatim>\<open>AlertFloatingBottom\<close>, 113--116 in \<^verbatim>\<open>PaperFloatingBottom\<close>):
  \<^verbatim>\<open>icon === 'error' ? 'error' : icon === 'warning' ? 'warning' : icon === 'done' ? 'success' : 'info'\<close>.
  The comparison is on the run-time string, so \<open>resolve_severity\<close> takes a
  string. The spec's contract (section 3: error\<open>\<mapsto>\<close>error, warning\<open>\<mapsto>\<close>warning,
  done\<open>\<mapsto>\<close>success, all others\<open>\<mapsto>\<close>info) is the table \<open>spec_severity\<close> on
  \<open>icon_kind\<close>; the refinement lemma says the code implements it.
  \<open>severity_name\<close> is the string the code passes on (the key into
  \<^verbatim>\<open>theme.palette\<close> and the \<^verbatim>\<open>severity\<close>/\<^verbatim>\<open>color\<close> props).
\<close>

datatype severity = SevError | SevWarning | SevSuccess | SevInfo

definition resolve_severity :: "js_string \<Rightarrow> severity" where
  "resolve_severity icon =
     (if icon = ''error'' then SevError
      else if icon = ''warning'' then SevWarning
      else if icon = ''done'' then SevSuccess
      else SevInfo)"

fun severity_name :: "severity \<Rightarrow> js_string" where
  "severity_name SevError = ''error''"
| "severity_name SevWarning = ''warning''"
| "severity_name SevSuccess = ''success''"
| "severity_name SevInfo = ''info''"

text \<open>The abstract contract of the resolver, from the spec's data model.\<close>

fun spec_severity :: "icon_kind \<Rightarrow> severity" where
  "spec_severity Error = SevError"
| "spec_severity Warning = SevWarning"
| "spec_severity Done = SevSuccess"
| "spec_severity Info = SevInfo"
| "spec_severity NewReleases = SevInfo"
| "spec_severity Report = SevInfo"

instantiation severity :: enum
begin

definition enum_severity :: "severity list" where
  "enum_severity = [SevError, SevWarning, SevSuccess, SevInfo]"

definition enum_all_severity :: "(severity \<Rightarrow> bool) \<Rightarrow> bool" where
  "enum_all_severity P \<longleftrightarrow> P SevError \<and> P SevWarning \<and> P SevSuccess \<and> P SevInfo"

definition enum_ex_severity :: "(severity \<Rightarrow> bool) \<Rightarrow> bool" where
  "enum_ex_severity P \<longleftrightarrow> P SevError \<or> P SevWarning \<or> P SevSuccess \<or> P SevInfo"

instance
proof
  have univ: "(UNIV :: severity set) = {SevError, SevWarning, SevSuccess, SevInfo}"
    using severity.exhaust by auto
  show "(UNIV :: severity set) = set enum_class.enum"
    by (simp add: univ enum_severity_def)
  show "distinct (enum_class.enum :: severity list)"
    by (simp add: enum_severity_def)
  fix P :: "severity \<Rightarrow> bool"
  show "enum_class.enum_all P = Ball UNIV P"
    by (simp add: univ enum_all_severity_def)
  show "enum_class.enum_ex P = Bex UNIV P"
    by (simp add: univ enum_ex_severity_def)
qed

end

declare resolve_severity_def [model_defs]

lemma resolve_severity_key_of [simp]: "resolve_severity (key_of k) = spec_severity k"
  by (cases k) (simp_all add: resolve_severity_def)

lemma resolve_severity_not_key:
  "s \<notin> set icon_keys \<Longrightarrow> resolve_severity s = SevInfo"
  by (simp add: resolve_severity_def icon_keys_eq)

text \<open>
  C4. Refinement of the spec's resolver: on every string the nested conditional
  returns the spec's severity of the icon kind the string names, and
  \<open>SevInfo\<close> on a string that names none.
\<close>

theorem resolve_severity_refines:
  "resolve_severity s = (case kind_of_key s of Some k \<Rightarrow> spec_severity k | None \<Rightarrow> SevInfo)"
proof (cases "kind_of_key s")
  case None
  then have "s \<notin> set icon_keys" by (simp add: kind_of_key_None)
  with None show ?thesis by (simp add: resolve_severity_not_key)
next
  case (Some k)
  then have "s = key_of k" by (rule kind_of_key_Some)
  with Some show ?thesis by simp
qed

end
