(* ===== verification/Theme.thy ===== *)
theory Theme
  imports Severity
begin

text \<open>
  The theme object of \<^verbatim>\<open>App.tsx\<close> (lines 14--41): \<^verbatim>\<open>createTheme\<close> with the
  transition easings and durations overridden and the palette left at the
  library's defaults. The widgets read \<^verbatim>\<open>theme.transitions.easing.*\<close>,
  \<^verbatim>\<open>theme.transitions.duration.short\<close> and \<^verbatim>\<open>theme.palette[severity].main\<close> /
  \<^verbatim>\<open>.light\<close>; the palette is a function of the severity, holding the default
  colours \<^verbatim>\<open>createTheme\<close> fills in (the code overrides none of them).

  A duration reaches CSS through a template literal,
  \<^verbatim>\<open>`${theme.transitions.duration.short}ms`\<close> (lines 78, 135): JavaScript's
  number-to-string conversion on a non-negative integer is its decimal digits,
  \<open>decimal_string\<close>.
\<close>

record easing =
  easeInOut :: js_string
  easeOut :: js_string
  easeIn :: js_string
  sharp :: js_string

record durations =
  dur_shortest :: nat
  dur_shorter :: nat
  dur_short :: nat
  dur_standard :: nat
  dur_complex :: nat
  dur_enteringScreen :: nat
  dur_leavingScreen :: nat

record palette_color =
  pal_main :: js_string
  pal_light :: js_string

record theme =
  th_easing :: easing
  th_duration :: durations
  th_palette :: "severity \<Rightarrow> palette_color"

fun default_palette :: "severity \<Rightarrow> palette_color" where
  "default_palette SevError = \<lparr>pal_main = ''#d32f2f'', pal_light = ''#ef5350''\<rparr>"
| "default_palette SevWarning = \<lparr>pal_main = ''#ed6c02'', pal_light = ''#ff9800''\<rparr>"
| "default_palette SevInfo = \<lparr>pal_main = ''#0288d1'', pal_light = ''#03a9f4''\<rparr>"
| "default_palette SevSuccess = \<lparr>pal_main = ''#2e7d32'', pal_light = ''#4caf50''\<rparr>"

definition theme :: theme where
  "theme =
     \<lparr>th_easing =
        \<lparr>easeInOut = ''cubic-bezier(0.4, 0, 0.2, 1)'',
         easeOut = ''cubic-bezier(0.0, 0, 0.2, 1)'',
         easeIn = ''cubic-bezier(0.4, 0, 1, 1)'',
         sharp = ''cubic-bezier(0.4, 0, 0.6, 1)''\<rparr>,
      th_duration =
        \<lparr>dur_shortest = 150, dur_shorter = 200, dur_short = 250, dur_standard = 300,
         dur_complex = 375, dur_enteringScreen = 225, dur_leavingScreen = 195\<rparr>,
      th_palette = default_palette\<rparr>"

text \<open>JavaScript's \<^verbatim>\<open>String(n)\<close> for a non-negative integer \<open>n\<close>.\<close>

fun decimal_string :: "nat \<Rightarrow> js_string" where
  "decimal_string n =
     (if n < 10 then [char_of (48 + n)]
      else decimal_string (n div 10) @ [char_of (48 + n mod 10)])"

declare decimal_string.simps [simp del]

text \<open>The template literal \<^verbatim>\<open>`${d}ms`\<close>.\<close>

definition ms_string :: "nat \<Rightarrow> js_string" where
  "ms_string d = decimal_string d @ ''ms''"

end
