(* ===== verification/Widgets.thy ===== *)
theory Widgets
  imports Theme
begin

text \<open>
  The two floating widgets of \<^verbatim>\<open>App.tsx\<close>: \<^verbatim>\<open>AlertFloatingBottom\<close>
  (lines 43--91) and \<^verbatim>\<open>PaperFloatingBottom\<close> (lines 94--162). Both take the same
  props (\<open>fb_props\<close>), render a translucent backdrop \<^verbatim>\<open>Box\<close> that doubles as the
  anchor of a \<^verbatim>\<open>Popper\<close>, and inside the popper a \<^verbatim>\<open>Slide\<close> transition around
  the notification (an \<^verbatim>\<open>Alert\<close>, or a \<^verbatim>\<open>Paper\<close> with its \<^verbatim>\<open>sx\<close>, icon,
  content and buttons); the children are kept as their text. Rendering is a pure function of the props and of the instance's
  hidden state \<open>fb_instance\<close>:
  \<^item> \<open>fi_exited\<close>: the popper's \<^verbatim>\<open>exited\<close> flag. A popper with
    \<^verbatim>\<open>transition\<close> stays mounted while it is open or its exit transition has
    not finished (\<open>popper_mounted\<close>); the slide's enter clears the flag
    (\<open>fb_commit\<close>), its \<^verbatim>\<open>onExited\<close> sets it again (\<open>fb_exit_done\<close>);
  \<^item> \<open>fi_anchor\<close>: whether \<^verbatim>\<open>anchorEl.current\<close> is set. A ref is attached
    when the element is committed, so the first render reads \<^verbatim>\<open>undefined\<close>.
  \<^verbatim>\<open><Icon />\<close> with \<^verbatim>\<open>Icon = Icons[icon]\<close> undefined makes React throw when
  the element is rendered: the render functions return \<open>Inl InvalidElementType\<close>
  then. A click on a rendered control returns the callbacks it invokes
  (\<open>alert_dispatch\<close>, \<open>paper_dispatch\<close>).
\<close>

record 'cb fb_props =
  fb_icon :: js_string
  fb_open :: bool
  fb_onClose :: "'cb option"
  fb_onOk :: "'cb option"
  fb_children :: "js_string option"

record fb_instance =
  fi_exited :: bool
  fi_anchor :: bool

datatype render_error = InvalidElementType

datatype widget_action = ClickOk | ClickClose

datatype close_control = CloseIconButton glyph | CancelButton js_string

record backdrop_sx =
  bd_position :: js_string
  bd_bottom :: nat
  bd_width :: js_string
  bd_left :: nat
  bd_right :: nat
  bd_height :: nat
  bd_overflow :: js_string
  bd_opacity :: nat
  bd_background :: js_string
  bd_timing :: js_string
  bd_property :: js_string
  bd_duration :: js_string

record alert_view =
  av_backdrop :: backdrop_sx
  av_describedby :: js_string
  av_popper_id :: js_string
  av_popper_open :: bool
  av_anchor :: bool
  av_placement :: "js_string option"
  av_mounted :: bool
  av_slide_direction :: js_string
  av_slide_timeout :: nat
  av_slide_enter :: js_string
  av_slide_exit :: js_string
  av_severity :: severity
  av_icon :: "glyph option"
  av_close_button :: bool
  av_content :: "js_string option"

record paper_sx =
  ps_p :: nat
  ps_display :: js_string
  ps_justifyContent :: js_string
  ps_alignItems :: js_string
  ps_borderRadius :: nat
  ps_border :: js_string

record paper_view =
  pv_backdrop :: backdrop_sx
  pv_describedby :: js_string
  pv_popper_id :: js_string
  pv_popper_open :: bool
  pv_anchor :: bool
  pv_placement :: "js_string option"
  pv_mounted :: bool
  pv_slide_direction :: js_string
  pv_slide_timeout :: nat
  pv_slide_enter :: js_string
  pv_slide_exit :: js_string
  pv_sx :: paper_sx
  pv_icon :: "glyph option"
  pv_icon_color :: severity
  pv_content :: "js_string option"
  pv_ok_label :: js_string
  pv_ok_variant :: js_string
  pv_ok_color :: severity
  pv_ok_radius :: nat
  pv_close_control :: close_control

subsection \<open>The popper's transition state\<close>

definition popper_mounted :: "bool \<Rightarrow> bool \<Rightarrow> bool" where
  "popper_mounted opn exited \<longleftrightarrow> opn \<or> \<not> exited"

definition fb_instance_init :: fb_instance where
  "fb_instance_init = \<lparr>fi_exited = True, fi_anchor = False\<rparr>"

definition fb_commit :: "bool \<Rightarrow> fb_instance \<Rightarrow> fb_instance" where
  "fb_commit opn i = \<lparr>fi_exited = (if opn then False else fi_exited i), fi_anchor = True\<rparr>"

definition fb_exit_done :: "bool \<Rightarrow> fb_instance \<Rightarrow> fb_instance" where
  "fb_exit_done opn i = (if opn then i else i\<lparr>fi_exited := True\<rparr>)"

subsection \<open>Shared pieces\<close>

text \<open>
  \<^verbatim>\<open>handleActionCloseClick\<close> and \<^verbatim>\<open>handleActionOkClick\<close> (lines 58--59, and
  the identical lines 110--111).
\<close>

definition handleActionCloseClick :: "'cb fb_props \<Rightarrow> 'cb list" where
  "handleActionCloseClick p = optional_call0 (fb_onClose p)"

definition handleActionOkClick :: "'cb fb_props \<Rightarrow> 'cb list" where
  "handleActionOkClick p = optional_call0 (fb_onOk p)"

text \<open>The backdrop's \<^verbatim>\<open>sx\<close> (lines 70--79; the same style at lines 129--136).\<close>

definition floating_backdrop :: "bool \<Rightarrow> severity \<Rightarrow> backdrop_sx" where
  "floating_backdrop opn sev =
     \<lparr>bd_position = ''absolute'', bd_bottom = 0, bd_width = ''100%'', bd_left = 0, bd_right = 0,
      bd_height = 25,
      bd_overflow = ''hidden'', bd_opacity = (if opn then 1 else 0),
      bd_background = ''linear-gradient(0deg, '' @ pal_main (th_palette theme sev)
                        @ ''30 0%, rgba(255,255,255,0) 90%)'',
      bd_timing = easeInOut (th_easing theme),
      bd_property = ''opacity'',
      bd_duration = ms_string (dur_short (th_duration theme))\<rparr>"

definition floating_id :: js_string where
  "floating_id = ''floatingbottomcomponent''"

subsection \<open>AlertFloatingBottom\<close>

definition alert_render :: "'cb fb_props \<Rightarrow> fb_instance \<Rightarrow> render_error + alert_view" where
  "alert_render p i =
     (let sev = resolve_severity (fb_icon p);
          Icon = icon_lookup (fb_icon p);
          mounted = popper_mounted (fb_open p) (fi_exited i)
      in if mounted \<and> Icon = None then Inl InvalidElementType
         else Inr \<lparr>av_backdrop = floating_backdrop (fb_open p) sev,
                   av_describedby = floating_id, av_popper_id = floating_id,
                   av_popper_open = fb_open p, av_anchor = fi_anchor i,
                   av_placement = Some ''bottom'', av_mounted = mounted,
                   av_slide_direction = ''up'', av_slide_timeout = dur_short (th_duration theme),
                   av_slide_enter = easeOut (th_easing theme),
                   av_slide_exit = easeOut (th_easing theme),
                   av_severity = sev, av_icon = Icon, av_close_button = True,
                   av_content = fb_children p\<rparr>)"

text \<open>
  The only control the alert renders is the \<^verbatim>\<open>Alert\<close>'s own close button
  (\<^verbatim>\<open>onClose={handleActionCloseClick}\<close>, line 85); \<^verbatim>\<open>actionCloseElement\<close> and
  \<^verbatim>\<open>actionOkElement\<close> (lines 65--66) are built but never placed in the tree.
\<close>

definition alert_actions :: "widget_action list" where
  "alert_actions = [ClickClose]"

definition alert_dispatch :: "'cb fb_props \<Rightarrow> fb_instance \<Rightarrow> widget_action \<Rightarrow> 'cb list" where
  "alert_dispatch p i a =
     (if popper_mounted (fb_open p) (fi_exited i) \<and> a \<in> set alert_actions
      then (case a of ClickClose \<Rightarrow> handleActionCloseClick p | ClickOk \<Rightarrow> handleActionOkClick p)
      else [])"

subsection \<open>PaperFloatingBottom\<close>

text \<open>
  The paper shows the icon coloured by severity, the content, an OK button and a
  close control: the \<^verbatim>\<open>CloseRounded\<close> icon button when \<^verbatim>\<open>onClose\<close> is given,
  otherwise a Cancel button (line 157); both call \<^verbatim>\<open>handleActionCloseClick\<close>.
\<close>

definition paper_close_control :: "'cb fb_props \<Rightarrow> close_control" where
  "paper_close_control p =
     (if fb_onClose p \<noteq> None then CloseIconButton CloseRounded else CancelButton ''Cancel'')"

text \<open>The \<^verbatim>\<open>Paper\<close>'s \<^verbatim>\<open>sx\<close> (lines 143--151): the border takes the severity's light colour.\<close>

definition paper_layout :: "severity \<Rightarrow> paper_sx" where
  "paper_layout sev =
     \<lparr>ps_p = 1, ps_display = ''flex'', ps_justifyContent = ''center'', ps_alignItems = ''center'',
      ps_borderRadius = 3, ps_border = ''1px solid '' @ pal_light (th_palette theme sev)\<rparr>"

definition paper_render :: "'cb fb_props \<Rightarrow> fb_instance \<Rightarrow> render_error + paper_view" where
  "paper_render p i =
     (let sev = resolve_severity (fb_icon p);
          Icon = icon_lookup (fb_icon p);
          mounted = popper_mounted (fb_open p) (fi_exited i)
      in if mounted \<and> Icon = None then Inl InvalidElementType
         else Inr \<lparr>pv_backdrop = floating_backdrop (fb_open p) sev,
                   pv_describedby = floating_id, pv_popper_id = floating_id,
                   pv_popper_open = fb_open p, pv_anchor = fi_anchor i,
                   pv_placement = None, pv_mounted = mounted,
                   pv_slide_direction = ''up'', pv_slide_timeout = dur_short (th_duration theme),
                   pv_slide_enter = easeInOut (th_easing theme),
                   pv_slide_exit = easeInOut (th_easing theme),
                   pv_sx = paper_layout sev,
                   pv_icon = Icon, pv_icon_color = sev, pv_content = fb_children p,
                   pv_ok_label = ''OK'', pv_ok_variant = ''outlined'', pv_ok_color = sev, pv_ok_radius = 2,
                   pv_close_control = paper_close_control p\<rparr>)"

definition paper_actions :: "widget_action list" where
  "paper_actions = [ClickOk, ClickClose]"

definition paper_dispatch :: "'cb fb_props \<Rightarrow> fb_instance \<Rightarrow> widget_action \<Rightarrow> 'cb list" where
  "paper_dispatch p i a =
     (if popper_mounted (fb_open p) (fi_exited i) \<and> a \<in> set paper_actions
      then (case a of ClickClose \<Rightarrow> handleActionCloseClick p | ClickOk \<Rightarrow> handleActionOkClick p)
      else [])"

declare popper_mounted_def [model_defs] fb_commit_def [model_defs] fb_exit_done_def [model_defs]
  handleActionCloseClick_def [model_defs] handleActionOkClick_def [model_defs]
  alert_actions_def [model_defs] paper_actions_def [model_defs]

lemma alert_render_defined:
  "fb_icon p \<in> set icon_keys \<Longrightarrow>
     \<exists>v. alert_render p i = Inr v \<and> av_anchor v = fi_anchor i \<and> av_popper_open v = fb_open p \<and>
         av_severity v = resolve_severity (fb_icon p)"
  by (simp add: alert_render_def Let_def)

lemma paper_render_defined:
  "fb_icon p \<in> set icon_keys \<Longrightarrow>
     \<exists>v. paper_render p i = Inr v \<and> pv_anchor v = fi_anchor i \<and> pv_popper_open v = fb_open p \<and>
         pv_icon_color v = resolve_severity (fb_icon p) \<and> pv_ok_color v = resolve_severity (fb_icon p)"
  by (simp add: paper_render_def Let_def)

lemma alert_dispatch_close:
  "popper_mounted (fb_open p) (fi_exited i) \<Longrightarrow> alert_dispatch p i ClickClose = optional_call0 (fb_onClose p)"
  by (simp add: alert_dispatch_def alert_actions_def handleActionCloseClick_def)

lemma alert_dispatch_ok [simp]: "alert_dispatch p i ClickOk = []"
  by (simp add: alert_dispatch_def alert_actions_def)

lemma paper_dispatch_mounted:
  "popper_mounted (fb_open p) (fi_exited i) \<Longrightarrow>
     paper_dispatch p i ClickClose = optional_call0 (fb_onClose p) \<and>
     paper_dispatch p i ClickOk = optional_call0 (fb_onOk p)"
  by (simp add: paper_dispatch_def paper_actions_def handleActionCloseClick_def handleActionOkClick_def)

lemma render_children:
  "alert_render p i = Inr av \<Longrightarrow>
     av_content av = fb_children p \<and> av_backdrop av = floating_backdrop (fb_open p) (resolve_severity (fb_icon p))"
  "paper_render p i = Inr pv \<Longrightarrow>
     pv_content pv = fb_children p \<and> pv_close_control pv = paper_close_control p \<and>
     pv_backdrop pv = floating_backdrop (fb_open p) (resolve_severity (fb_icon p)) \<and>
     pv_sx pv = paper_layout (resolve_severity (fb_icon p)) \<and>
     pv_ok_color pv = resolve_severity (fb_icon p)"
  by (auto simp: alert_render_def paper_render_def Let_def split: if_splits)

subsection \<open>Properties\<close>

text \<open>
  C22. The error path: rendering a widget fails exactly when its popper is mounted
  and \<^verbatim>\<open>Icons[icon]\<close> is undefined; a closed widget whose exit transition has
  ended renders with any icon string, because the popper does not call its
  children then.
\<close>

theorem render_error_iff:
  "(alert_render p i = Inl InvalidElementType \<longleftrightarrow>
      popper_mounted (fb_open p) (fi_exited i) \<and> fb_icon p \<notin> set icon_keys) \<and>
   (paper_render p i = Inl InvalidElementType \<longleftrightarrow>
      popper_mounted (fb_open p) (fi_exited i) \<and> fb_icon p \<notin> set icon_keys)"
  by (simp add: alert_render_def paper_render_def Let_def)

text \<open>
  C8. The alert widget never invokes \<^verbatim>\<open>onOk\<close>: its only rendered control is the
  close button, which calls \<^verbatim>\<open>onClose\<close> once if given, and only while the popper
  is mounted.
\<close>

theorem alert_dispatch_never_ok:
  "alert_dispatch p i a =
     (if popper_mounted (fb_open p) (fi_exited i) \<and> a = ClickClose
      then optional_call0 (fb_onClose p) else [])"
  by (cases a) (simp_all add: alert_dispatch_def alert_actions_def handleActionCloseClick_def)

text \<open>
  C9. A widget that is closed and has finished its exit transition is not in the
  tree: no click reaches it and no callback fires.
\<close>

theorem unmounted_no_callbacks:
  assumes "\<not> fb_open p" and "fi_exited i"
  shows "alert_dispatch p i a = [] \<and> paper_dispatch p i a = []"
  using assms by (simp add: alert_dispatch_def paper_dispatch_def popper_mounted_def)

theorem unmounted_no_callbacks_witness:
  "\<not> fb_open \<lparr>fb_icon = ''done'', fb_open = False, fb_onClose = Some (1::nat), fb_onOk = Some 2, fb_children = None\<rparr> \<and>
   fi_exited \<lparr>fi_exited = True, fi_anchor = True\<rparr> \<and>
   alert_dispatch \<lparr>fb_icon = ''done'', fb_open = False, fb_onClose = Some (1::nat), fb_onOk = Some 2, fb_children = None\<rparr>
     \<lparr>fi_exited = True, fi_anchor = True\<rparr> ClickClose = [] \<and>
   paper_dispatch \<lparr>fb_icon = ''done'', fb_open = False, fb_onClose = Some (1::nat), fb_onOk = Some 2, fb_children = None\<rparr>
     \<lparr>fi_exited = True, fi_anchor = True\<rparr> ClickClose = []"
  using unmounted_no_callbacks
    [of "\<lparr>fb_icon = ''done'', fb_open = False, fb_onClose = Some (1::nat), fb_onOk = Some 2, fb_children = None\<rparr>"
        "\<lparr>fi_exited = True, fi_anchor = True\<rparr>" ClickClose]
  by simp

text \<open>
  C11. Both widgets give their popper and their backdrop's
  \<^verbatim>\<open>aria-describedby\<close> the same id \<^verbatim>\<open>floatingbottomcomponent\<close> (lines 68, 127): with
  both on the screen the document has two elements with one id.
\<close>

theorem same_popper_id:
  assumes "alert_render p i = Inr av" and "paper_render q j = Inr pv"
  shows "av_popper_id av = pv_popper_id pv \<and> av_describedby av = pv_popper_id pv"
  using assms by (auto simp: alert_render_def paper_render_def Let_def split: if_splits)

theorem same_popper_id_witness:
  "\<exists>av pv.
     alert_render \<lparr>fb_icon = ''info'', fb_open = True, fb_onClose = None, fb_onOk = (None :: nat option), fb_children = None\<rparr>
       fb_instance_init = Inr av \<and>
     paper_render \<lparr>fb_icon = ''done'', fb_open = True, fb_onClose = None, fb_onOk = (None :: nat option), fb_children = None\<rparr>
       fb_instance_init = Inr pv \<and>
     av_popper_id av = pv_popper_id pv \<and> av_describedby av = pv_popper_id pv"
proof -
  obtain av where av: "alert_render \<lparr>fb_icon = ''info'', fb_open = True, fb_onClose = None,
      fb_onOk = (None :: nat option), fb_children = None\<rparr> fb_instance_init = Inr av"
    using alert_render_defined [of "\<lparr>fb_icon = ''info'', fb_open = True, fb_onClose = None,
      fb_onOk = (None :: nat option), fb_children = None\<rparr>" fb_instance_init] by (auto simp: icon_keys_eq)
  obtain pv where pv: "paper_render \<lparr>fb_icon = ''done'', fb_open = True, fb_onClose = None,
      fb_onOk = (None :: nat option), fb_children = None\<rparr> fb_instance_init = Inr pv"
    using paper_render_defined [of "\<lparr>fb_icon = ''done'', fb_open = True, fb_onClose = None,
      fb_onOk = (None :: nat option), fb_children = None\<rparr>" fb_instance_init] by (auto simp: icon_keys_eq)
  from av pv show ?thesis using same_popper_id [OF av pv] by blast
qed

text \<open>
  C17. While the paper is mounted, its close control and its OK button each invoke
  their callback once if it is given, and no click invokes more than one callback.
\<close>

theorem paper_dispatch_callbacks:
  assumes "popper_mounted (fb_open p) (fi_exited i)"
  shows "paper_dispatch p i ClickClose = optional_call0 (fb_onClose p) \<and>
         paper_dispatch p i ClickOk = optional_call0 (fb_onOk p) \<and>
         length (paper_dispatch p i a) \<le> 1"
  using assms paper_dispatch_mounted [OF assms]
  by (cases a) (simp_all add: optional_call0_def split: option.splits)

theorem paper_dispatch_callbacks_witness:
  "popper_mounted True False \<and>
   paper_dispatch \<lparr>fb_icon = ''info'', fb_open = True, fb_onClose = Some (1::nat), fb_onOk = None, fb_children = None\<rparr>
     \<lparr>fi_exited = False, fi_anchor = True\<rparr> ClickClose = [1] \<and>
   paper_dispatch \<lparr>fb_icon = ''info'', fb_open = True, fb_onClose = Some (1::nat), fb_onOk = None, fb_children = None\<rparr>
     \<lparr>fi_exited = False, fi_anchor = True\<rparr> ClickOk = [] \<and>
   length (paper_dispatch \<lparr>fb_icon = ''info'', fb_open = True, fb_onClose = Some (1::nat), fb_onOk = None, fb_children = None\<rparr>
     \<lparr>fi_exited = False, fi_anchor = True\<rparr> ClickClose) \<le> 1"
  using paper_dispatch_callbacks
    [of "\<lparr>fb_icon = ''info'', fb_open = True, fb_onClose = Some (1::nat), fb_onOk = None, fb_children = None\<rparr>"
        "\<lparr>fi_exited = False, fi_anchor = True\<rparr>" ClickClose]
  by (simp add: popper_mounted_def)

end
