(* ===== verification/Toggle.thy ===== *)
theory Toggle
  imports Prelude
begin

text \<open>
  \<^verbatim>\<open>ErrorToggleButton\<close> (\<^verbatim>\<open>App.tsx\<close> lines 165--195): a controlled
  \<^verbatim>\<open>ToggleButtonGroup\<close> in \<^verbatim>\<open>exclusive\<close> mode over the two values
  \<^verbatim>\<open>'Open'\<close> and \<^verbatim>\<open>'Close'\<close>, whose selected value is the \<^verbatim>\<open>defaultValue\<close>
  prop (renamed \<^verbatim>\<open>alignment\<close>; the component keeps no state of its own, its
  \<^verbatim>\<open>useState\<close> is commented out). On a click the group calls
  \<^verbatim>\<open>handleChange(event, newAlignment)\<close>, which forwards
  \<^verbatim>\<open>onChange?.(newAlignment)\<close>.

  The value the group passes is the library's exclusive-mode rule, which the
  code opts into with \<^verbatim>\<open>exclusive\<close> (line 188): clicking the button that is
  already selected passes \<^verbatim>\<open>null\<close>, any other button passes its own value
  (\<open>exclusive_change\<close>; \<open>None\<close> is \<^verbatim>\<open>null\<close>). Although the prop is typed
  \<^verbatim>\<open>(value: string) => void\<close>, \<^verbatim>\<open>onChange\<close> therefore receives an optional
  string, which the model makes explicit.
\<close>

record 'cb toggle_props =
  tg_defaultValue :: "js_string option"
  tg_onChange :: "(js_string option \<Rightarrow> 'cb) option"

definition toggle_values :: "js_string list" where
  "toggle_values = [''Open'', ''Close'']"

definition exclusive_change :: "js_string option \<Rightarrow> js_string \<Rightarrow> js_string option" where
  "exclusive_change value buttonValue = (if value = Some buttonValue then None else Some buttonValue)"

definition toggle_handleChange :: "'cb toggle_props \<Rightarrow> js_string option \<Rightarrow> 'cb list" where
  "toggle_handleChange p newAlignment = optional_call (tg_onChange p) newAlignment"

text \<open>
  The rendered group: one button per value, in order, each with whether it is
  selected (\<^verbatim>\<open>value={alignment}\<close>).
\<close>

definition toggle_render :: "'cb toggle_props \<Rightarrow> (js_string \<times> bool) list" where
  "toggle_render p = map (\<lambda>v. (v, tg_defaultValue p = Some v)) toggle_values"

text \<open>
  A click on the button labelled \<open>b\<close>: only rendered buttons can be clicked; the
  group computes the new alignment and the handler forwards it.
\<close>

definition toggle_click :: "'cb toggle_props \<Rightarrow> js_string \<Rightarrow> 'cb list" where
  "toggle_click p b =
     (if b \<in> set (map fst (toggle_render p))
      then toggle_handleChange p (exclusive_change (tg_defaultValue p) b)
      else [])"

declare toggle_values_def [model_defs] exclusive_change_def [model_defs]
  toggle_handleChange_def [model_defs] toggle_render_def [model_defs]

lemma toggle_render_buttons [simp]: "map fst (toggle_render p) = toggle_values"
  by (simp add: toggle_render_def comp_def)

lemma toggle_click_eq:
  "toggle_click p b =
     (if b \<in> set toggle_values
      then optional_call (tg_onChange p) (exclusive_change (tg_defaultValue p) b)
      else [])"
  by (simp add: toggle_click_def toggle_handleChange_def)


text \<open>
  C14. The group renders the two buttons and marks exactly the one whose value is
  the \<^verbatim>\<open>defaultValue\<close> prop as selected.
\<close>

theorem toggle_render_one_selected:
  assumes "tg_defaultValue p = Some v" and "v \<in> set toggle_values"
  shows "filter snd (toggle_render p) = [(v, True)]"
  using assms by (auto simp: toggle_render_def toggle_values_def)

theorem toggle_render_one_selected_witness:
  "tg_defaultValue \<lparr>tg_defaultValue = Some ''Open'', tg_onChange = (None :: (js_string option \<Rightarrow> nat) option)\<rparr>
     = Some ''Open'' \<and> ''Open'' \<in> set toggle_values \<and>
   filter snd (toggle_render \<lparr>tg_defaultValue = Some ''Open'',
     tg_onChange = (None :: (js_string option \<Rightarrow> nat) option)\<rparr>) = [(''Open'', True)]"
  using toggle_render_one_selected
    [of "\<lparr>tg_defaultValue = Some ''Open'', tg_onChange = (None :: (js_string option \<Rightarrow> nat) option)\<rparr>"
        "''Open''"]
  by (simp add: toggle_values_def)

text \<open>
  C18. The exclusive group's click: a rendered button calls \<^verbatim>\<open>onChange\<close> once, with
  \<^verbatim>\<open>null\<close> when it is the selected button and with its own value otherwise; a
  value that is not a button fires nothing.
\<close>

theorem toggle_click_exclusive:
  assumes "tg_onChange p = Some f"
  shows "toggle_click p b =
           (if b \<in> set toggle_values
            then [f (if tg_defaultValue p = Some b then None else Some b)] else [])"
  using assms by (simp add: toggle_click_eq exclusive_change_def)

theorem toggle_click_exclusive_witness:
  "tg_onChange \<lparr>tg_defaultValue = Some ''Open'', tg_onChange = Some (\<lambda>v :: js_string option. v)\<rparr>
     = Some (\<lambda>v. v) \<and>
   toggle_click \<lparr>tg_defaultValue = Some ''Open'', tg_onChange = Some (\<lambda>v :: js_string option. v)\<rparr> ''Open''
     = [None] \<and>
   toggle_click \<lparr>tg_defaultValue = Some ''Open'', tg_onChange = Some (\<lambda>v :: js_string option. v)\<rparr> ''Close''
     = [Some ''Close'']"
  using toggle_click_exclusive
    [of "\<lparr>tg_defaultValue = Some ''Open'', tg_onChange = Some (\<lambda>v :: js_string option. v)\<rparr>" "\<lambda>v. v"]
  by (simp add: toggle_values_def)

end
