(* ===== verification/JsObject.thy ===== *)
theory JsObject
  imports Prelude
begin

text \<open>
  Plain JavaScript objects as the code builds them: object literals
  (\<^verbatim>\<open>{disableRipple: true, ...}\<close>, the style objects of \<^verbatim>\<open>styled\<close>) and the
  spread \<^verbatim>\<open>{...a, ...b}\<close> / JSX \<^verbatim>\<open><Radio ... {...props} />\<close>. An object is an
  association list kept in property insertion order, because that order is what
  \<^verbatim>\<open>Object.keys\<close> and style serialisation see. Assigning a property
  (\<open>js_set\<close>) overwrites it in place when the key exists and appends it
  otherwise; a spread assigns the properties of the right object one after the
  other (\<open>js_spread\<close>). A well-formed object has each key once
  (\<open>js_object_wf\<close>); lookups (\<open>js_get\<close>) are \<open>None\<close> for \<^verbatim>\<open>undefined\<close>.
\<close>

type_synonym ('k, 'v) js_object = "('k \<times> 'v) list"

fun js_set :: "('k, 'v) js_object \<Rightarrow> 'k \<Rightarrow> 'v \<Rightarrow> ('k, 'v) js_object" where
  "js_set [] k v = [(k, v)]"
| "js_set ((k', v') # ps) k v = (if k' = k then (k, v) # ps else (k', v') # js_set ps k v)"

definition js_spread :: "('k, 'v) js_object \<Rightarrow> ('k, 'v) js_object \<Rightarrow> ('k, 'v) js_object" where
  "js_spread a b = fold (\<lambda>(k, v) acc. js_set acc k v) b a"

definition js_get :: "('k, 'v) js_object \<Rightarrow> 'k \<Rightarrow> 'v option" where
  "js_get obj k = map_of obj k"

definition js_keys :: "('k, 'v) js_object \<Rightarrow> 'k list" where
  "js_keys obj = map fst obj"

definition js_object_wf :: "('k, 'v) js_object \<Rightarrow> bool" where
  "js_object_wf obj \<longleftrightarrow> distinct (js_keys obj)"

lemma map_of_js_set [simp]: "map_of (js_set ps k v) = (map_of ps)(k \<mapsto> v)"
  by (induction ps) (auto simp: fun_eq_iff)

lemma js_spread_simps [simp]:
  "js_spread a [] = a"
  "js_spread a ((k, v) # b) = js_spread (js_set a k v) b"
  by (simp_all add: js_spread_def)

lemma map_of_js_spread: "map_of (js_spread a b) = map_of a ++ map_of (rev b)"
proof (induction b arbitrary: a)
  case Nil
  then show ?case by simp
next
  case (Cons p b)
  obtain k v where p: "p = (k, v)" by (cases p)
  have "map_of (js_spread a (p # b)) = (map_of a)(k \<mapsto> v) ++ map_of (rev b)"
    by (simp add: p Cons.IH del: map_of_js_set) (simp add: fun_upd_def)
  also have "\<dots> = map_of a ++ map_of (rev (p # b))"
    by (simp add: p map_add_def fun_eq_iff split: option.splits)
  finally show ?case .
qed

lemma map_of_rev_distinct: "distinct (map fst b) \<Longrightarrow> map_of (rev b) = map_of b"
  by (subst map_of_inject_set) (simp_all add: rev_map [symmetric])

end
