(* ===== verification/Styles.thy ===== *)
theory Styles
  imports JsObject
begin

text \<open>
  The styled radio icons of \<^verbatim>\<open>App.tsx\<close> (lines 203--256). \<^verbatim>\<open>styled\<close> turns a
  style object (or a function of the theme returning one) into a component;
  a style object maps CSS properties to values and selectors such as
  \<^verbatim>\<open>'input:hover ~ &'\<close> to nested objects (\<open>style_object\<close>, with
  \<open>css_entry\<close> telling the two apart). \<^verbatim>\<open>styled(BpIcon)({...})\<close> composes:
  the component carries the list of style objects \<^verbatim>\<open>[BpIcon's, its own]\<close>
  (\<open>styled_styles\<close>), serialised in that order, so that for each selector and
  property the declaration written last is the one the cascade applies
  (\<open>css_cascade\<close>, the reference semantics). \<open>css_effective\<close> computes the
  same thing once, by merging the objects key by key (\<open>css_merge\<close>: a property
  is overwritten, a nested selector block is merged property-wise).

  The theme \<^verbatim>\<open>styled\<close> passes is the one of the nearest \<^verbatim>\<open>ThemeProvider\<close>;
  \<^verbatim>\<open>App.tsx\<close> has none (its \<^verbatim>\<open>theme\<close> constant is only read directly), so
  the styled icons get Material UI's default theme, whose palette mode is
  light (\<open>default_theme_mode\<close>).

  \<^verbatim>\<open>BpRadio\<close> (lines 246--256) spreads its props over four defaults
  (\<open>BpRadio_defaults\<close>); Material UI's \<^verbatim>\<open>Radio\<close> shows its \<^verbatim>\<open>checkedIcon\<close>
  when checked and its \<^verbatim>\<open>icon\<close> otherwise (\<open>mui_radio_icon\<close>), and
  \<^verbatim>\<open>FormControlLabel\<close> hands its control the option's \<^verbatim>\<open>value\<close>
  (\<open>form_control_label_props\<close>).
\<close>

datatype palette_mode = Light | Dark

datatype css_value = CssNum nat | CssStr js_string

datatype css_entry = Decl css_value | Nested "(js_string, css_value) js_object"

type_synonym style_object = "(js_string, css_entry) js_object"

text \<open>The components the code creates with \<^verbatim>\<open>styled\<close>, as JSX elements.\<close>

datatype styled_el = BpIconEl | BpCheckedIconEl

datatype jsx_value = JBool bool | JStr js_string | JElem styled_el

subsection \<open>Style objects and the cascade\<close>

fun css_kind :: "css_entry \<Rightarrow> bool" where
  "css_kind (Decl _) = False"
| "css_kind (Nested _) = True"

definition css_object_wf :: "style_object \<Rightarrow> bool" where
  "css_object_wf obj \<longleftrightarrow>
     js_object_wf obj \<and>
     (\<forall>(k, e) \<in> set obj. case e of Decl _ \<Rightarrow> True | Nested d \<Rightarrow> js_object_wf d)"

text \<open>A key means the same kind of entry (property or selector) wherever it occurs.\<close>

definition css_compatible :: "style_object \<Rightarrow> style_object \<Rightarrow> bool" where
  "css_compatible a b \<longleftrightarrow>
     (\<forall>(k, e) \<in> set a. \<forall>(k', e') \<in> set b. k = k' \<longrightarrow> css_kind e = css_kind e')"

fun css_get :: "style_object \<Rightarrow> js_string option \<Rightarrow> js_string \<Rightarrow> css_value option" where
  "css_get obj None k = (case js_get obj k of Some (Decl v) \<Rightarrow> Some v | _ \<Rightarrow> None)"
| "css_get obj (Some sel) k = (case js_get obj sel of Some (Nested d) \<Rightarrow> js_get d k | _ \<Rightarrow> None)"

definition css_cascade :: "style_object list \<Rightarrow> js_string option \<Rightarrow> js_string \<Rightarrow> css_value option" where
  "css_cascade objs sel k =
     fold (\<lambda>obj r. case css_get obj sel k of Some v \<Rightarrow> Some v | None \<Rightarrow> r) objs None"

definition css_merge_val :: "css_entry option \<Rightarrow> css_entry \<Rightarrow> css_entry" where
  "css_merge_val old e =
     (case (old, e) of (Some (Nested d0), Nested d) \<Rightarrow> Nested (js_spread d0 d) | _ \<Rightarrow> e)"

definition css_merge :: "style_object \<Rightarrow> style_object \<Rightarrow> style_object" where
  "css_merge acc obj = fold (\<lambda>(k, e) a. js_set a k (css_merge_val (js_get a k) e)) obj acc"

definition css_effective :: "style_object list \<Rightarrow> style_object" where
  "css_effective objs = fold (\<lambda>obj acc. css_merge acc obj) objs []"

subsection \<open>\<^verbatim>\<open>BpIcon\<close> and \<^verbatim>\<open>BpCheckedIcon\<close>\<close>

definition default_theme_mode :: palette_mode where
  "default_theme_mode = Light"

definition BpIcon :: "palette_mode \<Rightarrow> style_object" where
  "BpIcon mode =
     [(''borderRadius'', Decl (CssStr ''50%'')),
      (''width'', Decl (CssNum 16)),
      (''height'', Decl (CssNum 16)),
      (''boxShadow'', Decl (CssStr (if mode = Dark then ''0 0 0 1px rgb(16 22 26 / 40%)''
         else ''inset 0 0 0 1px rgba(16,22,26,.2), inset 0 -1px 0 rgba(16,22,26,.1)''))),
      (''backgroundColor'', Decl (CssStr (if mode = Dark then ''#394b59'' else ''#f5f8fa''))),
      (''backgroundImage'', Decl (CssStr (if mode = Dark
         then ''linear-gradient(180deg,hsla(0,0%,100%,.05),hsla(0,0%,100%,0))''
         else ''linear-gradient(180deg,hsla(0,0%,100%,.8),hsla(0,0%,100%,0))''))),
      (''.Mui-focusVisible &'', Nested
         [(''outline'', CssStr ''2px auto rgba(19,124,189,.6)''), (''outlineOffset'', CssNum 2)]),
      (''input:hover ~ &'', Nested
         [(''backgroundColor'', CssStr (if mode = Dark then ''#30404d'' else ''#ebf1f5''))]),
      (''input:disabled ~ &'', Nested
         [(''boxShadow'', CssStr ''none''),
          (''background'', CssStr (if mode = Dark then ''rgba(57,75,89,.5)'' else ''rgba(206,217,224,.5)''))])]"

definition BpCheckedIcon :: style_object where
  "BpCheckedIcon =
     [(''backgroundColor'', Decl (CssStr ''#137cbd'')),
      (''backgroundImage'', Decl (CssStr ''linear-gradient(180deg,hsla(0,0%,100%,.1),hsla(0,0%,100%,0))'')),
      (''&::before'', Nested
         [(''display'', CssStr ''block''), (''width'', CssNum 16), (''height'', CssNum 16),
          (''backgroundImage'', CssStr ''radial-gradient(#fff,#fff 28%,transparent 32%)''),
          (''content'', CssStr ''\"\"'')]),
      (''input:hover ~ &'', Nested [(''backgroundColor'', CssStr ''#106ba3'')])]"

primrec styled_styles :: "palette_mode \<Rightarrow> styled_el \<Rightarrow> style_object list" where
  "styled_styles mode BpIconEl = [BpIcon mode]"
| "styled_styles mode BpCheckedIconEl = [BpIcon mode, BpCheckedIcon]"

definition styled_css :: "styled_el \<Rightarrow> style_object" where
  "styled_css el = css_effective (styled_styles default_theme_mode el)"

subsection \<open>\<^verbatim>\<open>BpRadio\<close>\<close>

definition BpRadio_defaults :: "(js_string, jsx_value) js_object" where
  "BpRadio_defaults =
     [(''disableRipple'', JBool True), (''color'', JStr ''default''),
      (''checkedIcon'', JElem BpCheckedIconEl), (''icon'', JElem BpIconEl)]"

definition BpRadio :: "(js_string, jsx_value) js_object \<Rightarrow> (js_string, jsx_value) js_object" where
  "BpRadio props = js_spread BpRadio_defaults props"

text \<open>\<open>None\<close> is Material UI's own default radio icon.\<close>

definition mui_radio_icon :: "(js_string, jsx_value) js_object \<Rightarrow> bool \<Rightarrow> jsx_value option" where
  "mui_radio_icon props checked =
     (if checked then js_get props ''checkedIcon'' else js_get props ''icon'')"

definition form_control_label_props :: "js_string \<Rightarrow> (js_string, jsx_value) js_object" where
  "form_control_label_props v = [(''value'', JStr v)]"

declare css_merge_def [model_defs] css_effective_def [model_defs] BpRadio_def [model_defs]
  mui_radio_icon_def [model_defs] form_control_label_props_def [model_defs]

subsection \<open>The merge implements the cascade\<close>

lemma set_js_set: "set (js_set ps k v) \<subseteq> insert (k, v) (set ps)"
  by (induction ps) (auto split: if_splits)

lemma css_kind_merge_val [simp]: "css_kind (css_merge_val old e) = css_kind e"
  by (simp add: css_merge_val_def split: option.splits css_entry.splits)

lemma css_merge_Cons [simp]:
  "css_merge acc ((k, e) # obj) = css_merge (js_set acc k (css_merge_val (js_get acc k) e)) obj"
  by (simp add: css_merge_def)

lemma map_of_css_merge:
  "distinct (map fst obj) \<Longrightarrow>
     map_of (css_merge acc obj) k =
       (case map_of obj k of None \<Rightarrow> map_of acc k | Some e \<Rightarrow> Some (css_merge_val (map_of acc k) e))"
proof (induction obj arbitrary: acc)
  case Nil
  then show ?case by (simp add: css_merge_def)
next
  case (Cons p obj)
  obtain k' e where p: "p = (k', e)" by (cases p)
  from Cons.prems have nk: "k' \<notin> set (map fst obj)" and d: "distinct (map fst obj)"
    by (simp_all add: p)
  have IH: "map_of (css_merge a obj) k =
      (case map_of obj k of None \<Rightarrow> map_of a k | Some e \<Rightarrow> Some (css_merge_val (map_of a k) e))" for a
    using d by (rule Cons.IH)
  show ?case
  proof (cases "k = k'")
    case True
    with nk have "map_of obj k = None" by (simp add: map_of_eq_None_iff)
    with True IH show ?thesis by (simp add: p js_get_def)
  next
    case False
    with IH show ?thesis by (simp add: p js_get_def split: option.split)
  qed
qed

lemma css_merge_kinds:
  "(k, e) \<in> set (css_merge acc obj) \<Longrightarrow>
     (k, e) \<in> set acc \<or> (\<exists>e'. (k, e') \<in> set obj \<and> css_kind e' = css_kind e)"
proof (induction obj arbitrary: acc)
  case Nil
  then show ?case by (simp add: css_merge_def)
next
  case (Cons p obj)
  obtain k' e' where p: "p = (k', e')" by (cases p)
  from Cons.prems Cons.IH [of "js_set acc k' (css_merge_val (js_get acc k') e')"] set_js_set
  show ?case by (fastforce simp: p)
qed

lemma css_get_merge:
  assumes "css_object_wf obj" and "css_compatible acc obj"
  shows "css_get (css_merge acc obj) sel k =
           (case css_get obj sel k of Some v \<Rightarrow> Some v | None \<Rightarrow> css_get acc sel k)"
proof -
  from assms(1) have dist: "distinct (map fst obj)"
    by (simp add: css_object_wf_def js_object_wf_def js_keys_def)
  have kinds: "css_kind e = css_kind e'" if "map_of acc x = Some e" "map_of obj x = Some e'" for x e e'
    using assms(2) that by (fastforce simp: css_compatible_def dest!: map_of_SomeD)
  have clash1: "map_of obj x \<noteq> Some (Nested d)" if "map_of acc x = Some (Decl v)" for x v d
    using kinds [OF that] by fastforce
  have clash2: "map_of obj x \<noteq> Some (Decl v)" if "map_of acc x = Some (Nested d)" for x v d
    using kinds [OF that] by fastforce
  have nested: "js_object_wf d" if "map_of obj x = Some (Nested d)" for x d
    using assms(1) that by (fastforce simp: css_object_wf_def dest!: map_of_SomeD)
  show ?thesis
  proof (cases sel)
    case None
    then show ?thesis
      using clash1 [of k] map_of_css_merge [OF dist, of acc k]
      by (auto simp: js_get_def css_merge_val_def split: option.splits css_entry.splits)
  next
    case (Some s)
    show ?thesis
      using Some clash2 [of s] nested [of s] map_of_css_merge [OF dist, of acc s]
      by (auto simp: js_get_def css_merge_val_def map_of_js_spread map_add_def map_of_rev_distinct
                     js_object_wf_def js_keys_def split: option.splits css_entry.splits)
  qed
qed

lemma css_compatible_iff:
  "css_compatible a b \<longleftrightarrow>
     (\<forall>k e e'. (k, e) \<in> set a \<longrightarrow> (k, e') \<in> set b \<longrightarrow> css_kind e = css_kind e')"
  by (auto simp: css_compatible_def)

lemma css_compatible_mono:
  "css_compatible a b \<Longrightarrow> set a' \<subseteq> set a \<Longrightarrow> set b' \<subseteq> set b \<Longrightarrow> css_compatible a' b'"
  unfolding css_compatible_iff by blast

lemma css_compatible_merge:
  assumes "css_compatible acc (obj @ rest)" and "css_compatible (obj @ rest) (obj @ rest)"
  shows "css_compatible (css_merge acc obj) rest"
  unfolding css_compatible_iff
proof (intro allI impI)
  fix k e e' assume ke: "(k, e) \<in> set (css_merge acc obj)" and "(k, e') \<in> set rest"
  then have r: "(k, e') \<in> set (obj @ rest)" by simp
  from css_merge_kinds [OF ke] show "css_kind e = css_kind e'"
  proof
    assume "(k, e) \<in> set acc"
    with r assms(1) show ?thesis by (auto simp: css_compatible_iff)
  next
    assume "\<exists>e''. (k, e'') \<in> set obj \<and> css_kind e'' = css_kind e"
    with r assms(2) show ?thesis by (auto simp: css_compatible_iff)
  qed
qed

lemma css_get_fold_merge:
  assumes "\<forall>obj \<in> set objs. css_object_wf obj"
    and "css_compatible acc (concat objs)" and "css_compatible (concat objs) (concat objs)"
  shows "css_get (fold (\<lambda>obj acc. css_merge acc obj) objs acc) sel k =
           fold (\<lambda>obj r. case css_get obj sel k of Some v \<Rightarrow> Some v | None \<Rightarrow> r) objs (css_get acc sel k)"
  using assms
proof (induction objs arbitrary: acc)
  case Nil
  then show ?case by simp
next
  case (Cons obj objs)
  have "css_compatible acc obj"
    using Cons.prems(2) by (rule css_compatible_mono) auto
  then have step: "css_get (css_merge acc obj) sel k =
      (case css_get obj sel k of Some v \<Rightarrow> Some v | None \<Rightarrow> css_get acc sel k)"
    using Cons.prems(1) by (simp add: css_get_merge)
  have "css_compatible (css_merge acc obj) (concat objs)"
    using Cons.prems(2,3) by (simp add: css_compatible_merge)
  moreover have "css_compatible (concat objs) (concat objs)"
    using Cons.prems(3) by (rule css_compatible_mono) auto
  ultimately show ?case
    using Cons.IH [of "css_merge acc obj"] Cons.prems(1) step by simp
qed


lemma BpRadio_option_icon [simp]:
  "mui_radio_icon (BpRadio (form_control_label_props v)) c =
     Some (JElem (if c then BpCheckedIconEl else BpIconEl))"
  by (simp add: mui_radio_icon_def BpRadio_def form_control_label_props_def js_get_def BpRadio_defaults_def)

subsection \<open>Properties\<close>

lemma css_effective_cascade:
  assumes "\<forall>obj \<in> set objs. css_object_wf obj"
    and "css_compatible (concat objs) (concat objs)"
  shows "css_get (css_effective objs) sel k = css_cascade objs sel k"
proof -
  have c: "css_compatible [] (concat objs)" by (simp add: css_compatible_def)
  have "css_get (css_effective objs) sel k =
      fold (\<lambda>obj r. case css_get obj sel k of Some v \<Rightarrow> Some v | None \<Rightarrow> r) objs (css_get [] sel k)"
    unfolding css_effective_def by (rule css_get_fold_merge [OF assms(1) c assms(2)])
  moreover have "css_get [] sel k = None" by (cases sel) (simp_all add: js_get_def)
  ultimately show ?thesis by (simp add: css_cascade_def)
qed

lemma styled_checked_get:
  "css_get (css_effective (styled_styles m BpCheckedIconEl)) sel k =
     (case css_get BpCheckedIcon sel k of Some v \<Rightarrow> Some v | None \<Rightarrow> css_get (BpIcon m) sel k)"
proof -
  have wf: "\<forall>obj \<in> set (styled_styles m BpCheckedIconEl). css_object_wf obj"
    by (cases m) code_simp+
  have cp: "css_compatible (concat (styled_styles m BpCheckedIconEl)) (concat (styled_styles m BpCheckedIconEl))"
    by (cases m) code_simp+
  show ?thesis
    using css_effective_cascade [OF wf cp, of sel k] by (simp add: css_cascade_def split: option.split)
qed

lemma styled_plain_get:
  "css_get (css_effective (styled_styles m BpIconEl)) sel k = css_get (BpIcon m) sel k"
proof -
  have wf: "\<forall>obj \<in> set (styled_styles m BpIconEl). css_object_wf obj"
    by (cases m) code_simp+
  have cp: "css_compatible (concat (styled_styles m BpIconEl)) (concat (styled_styles m BpIconEl))"
    by (cases m) code_simp+
  show ?thesis
    using css_effective_cascade [OF wf cp, of sel k] by (simp add: css_cascade_def split: option.split)
qed

text \<open>
  C20. The composition \<^verbatim>\<open>styled(BpIcon)({...})\<close> of line 230: in either palette
  mode, the checked icon differs from the unchecked one exactly in its fill
  (background colour and image, and the hover colour) and in the white dot its
  \<^verbatim>\<open>&::before\<close> block adds; every other declaration, on every selector (size,
  radius, shadow, focus outline, disabled style), is inherited from
  \<^verbatim>\<open>BpIcon\<close>.
\<close>

theorem checked_icon_changes_only_fill:
  "css_get (css_effective (styled_styles m BpCheckedIconEl)) sel k \<noteq>
     css_get (css_effective (styled_styles m BpIconEl)) sel k \<longleftrightarrow>
   (sel = None \<and> k \<in> set [''backgroundColor'', ''backgroundImage'']) \<or>
   (sel = Some ''input:hover ~ &'' \<and> k = ''backgroundColor'') \<or>
   (sel = Some ''&::before'' \<and> k \<in> set [''display'', ''width'', ''height'', ''backgroundImage'', ''content''])"
  unfolding styled_checked_get styled_plain_get
  by (cases sel) (auto simp: BpCheckedIcon_def BpIcon_def js_get_def split: if_splits option.split)

theorem checked_icon_changes_only_fill_witness:
  "css_get (css_effective (styled_styles Light BpCheckedIconEl)) (Some ''input:hover ~ &'') ''backgroundColor'' \<noteq>
     css_get (css_effective (styled_styles Light BpIconEl)) (Some ''input:hover ~ &'') ''backgroundColor''"
  using checked_icon_changes_only_fill [of Light "Some ''input:hover ~ &''" "''backgroundColor''"] by simp

end
