(* ===== verification/Radio.thy ===== *)
theory Radio
  imports Styles
begin

text \<open>
  \<^verbatim>\<open>RadioButtons\<close> (\<^verbatim>\<open>App.tsx\<close> lines 258--272): a labelled
  \<^verbatim>\<open>RadioGroup\<close> with one option per entry of \<^verbatim>\<open>values\<close> (value and label
  both the entry). The group is uncontrolled: it is given \<^verbatim>\<open>defaultValue\<close>
  and keeps the checked value itself, so the model carries that value as the
  component's state (\<open>radio_init\<close>, then threaded through \<open>radio_click\<close>).
  A click on an option fires the DOM \<^verbatim>\<open>change\<close> event only when that option was
  not already checked; the group then stores the new value and calls
  \<^verbatim>\<open>onChange\<close> (a required prop) with the event, whose target carries the
  option's value. The model passes the value itself.
  Each option's control is \<^verbatim>\<open><BpRadio />\<close> (line 266), which
  \<^verbatim>\<open>FormControlLabel\<close> gives the option's value; the view records the icon
  that control shows (\<open>rv_icons\<close>, see theory \<^verbatim>\<open>Styles\<close>).
\<close>

record 'cb radio_props =
  rb_values :: "js_string list"
  rb_label :: js_string
  rb_defaultValue :: js_string
  rb_onChange :: "js_string \<Rightarrow> 'cb"

record radio_view =
  rv_label :: js_string
  rv_name :: js_string
  rv_options :: "(js_string \<times> js_string \<times> bool) list"
  rv_icons :: "jsx_value option list"

definition radio_init :: "'cb radio_props \<Rightarrow> js_string" where
  "radio_init p = rb_defaultValue p"

text \<open>Each option: its value, its label, and whether it is checked.\<close>

definition radio_render :: "'cb radio_props \<Rightarrow> js_string \<Rightarrow> radio_view" where
  "radio_render p checked =
     \<lparr>rv_label = rb_label p, rv_name = ''customized-radios'',
      rv_options = map (\<lambda>v. (v, v, v = checked)) (rb_values p),
      rv_icons = map (\<lambda>v. mui_radio_icon (BpRadio (form_control_label_props v)) (v = checked))
                   (rb_values p)\<rparr>"

definition radio_click :: "'cb radio_props \<Rightarrow> js_string \<Rightarrow> js_string \<Rightarrow> js_string \<times> 'cb list" where
  "radio_click p checked v =
     (if v \<in> set (rb_values p) \<and> v \<noteq> checked then (v, [rb_onChange p v]) else (checked, []))"

declare radio_init_def [model_defs] radio_render_def [model_defs] radio_click_def [model_defs]

lemma checked_options_filter:
  "map fst (filter (\<lambda>x. snd (snd x)) (map (\<lambda>v. (v, v, v = c)) xs)) = filter (\<lambda>v. v = c) xs"
  by (induction xs) auto

lemma radio_checked_options:
  "map fst (filter (\<lambda>x. snd (snd x)) (rv_options (radio_render p c))) =
     filter (\<lambda>v. v = c) (rb_values p)"
  by (simp add: radio_render_def checked_options_filter)


lemma radio_render_icons:
  "rv_icons (radio_render p c) =
     map (\<lambda>v. Some (JElem (if v = c then BpCheckedIconEl else BpIconEl))) (rb_values p)"
  by (simp add: radio_render_def)

end
