(* ===== verification/App.thy ===== *)
theory App
  imports Widgets Toggle Radio
begin

text \<open>
  The demo screen \<^verbatim>\<open>App\<close> (\<^verbatim>\<open>App.tsx\<close> lines 274--302) as a state machine.
  Its state \<open>app_state\<close> is the three \<^verbatim>\<open>useState\<close> hooks (\<^verbatim>\<open>open\<close>, written
  \<open>open_paper\<close> because \<open>open\<close> is a constant of HOL, \<^verbatim>\<open>openAlert\<close>,
  \<^verbatim>\<open>selectedIcon\<close>) together with the state React keeps for its children: the
  radio group's checked value and the two widget instances (\<open>fb_instance\<close>).
  The callbacks \<^verbatim>\<open>App\<close> passes down are state transformers (\<open>app_cb\<close>); an
  event dispatches to the child that receives it, runs the callbacks the child
  returns (\<open>app_handle\<close>), and React re-renders and commits (\<open>app_commit\<close>:
  the poppers' enter transitions start and the refs are attached).
  Two events are not user input but the end of a popper's exit transition.
\<close>

record app_state =
  open_paper :: bool
  openAlert :: bool
  selectedIcon :: js_string
  radio_checked :: js_string
  alert_inst :: fb_instance
  paper_inst :: fb_instance

type_synonym app_cb = "app_state \<Rightarrow> app_state"

datatype app_event =
    SelectIcon js_string
  | ClickAlertToggle js_string
  | ClickPaperToggle js_string
  | AlertAction widget_action
  | PaperAction widget_action
  | AlertExited
  | PaperExited

record app_view =
  view_radio :: radio_view
  view_alert_toggle :: "(js_string \<times> bool) list"
  view_paper_toggle :: "(js_string \<times> bool) list"
  view_alert :: alert_view
  view_paper :: paper_view

subsection \<open>The callbacks App passes down\<close>

text \<open>\<^verbatim>\<open>handleChange\<close> (lines 280--282): \<^verbatim>\<open>setSelectedValue(event.currentTarget.value)\<close>.\<close>

definition handleChange :: "js_string \<Rightarrow> app_cb" where
  "handleChange v s = s\<lparr>selectedIcon := v\<rparr>"

text \<open>\<^verbatim>\<open>openAlert ? 'Open' : 'Close'\<close> (lines 289, 292).\<close>

definition toggle_default :: "bool \<Rightarrow> js_string" where
  "toggle_default b = (if b then ''Open'' else ''Close'')"

text \<open>\<^verbatim>\<open>value?.toLowerCase() === "open"\<close> (lines 289, 292).\<close>

definition toggle_value_open :: "js_string option \<Rightarrow> bool" where
  "toggle_value_open v = (case v of None \<Rightarrow> False | Some s \<Rightarrow> js_to_lower s = ''open'')"

definition app_radio_props :: "app_cb radio_props" where
  "app_radio_props =
     \<lparr>rb_values = icon_keys, rb_label = ''Select Icon'', rb_defaultValue = ''info'',
      rb_onChange = handleChange\<rparr>"

definition alert_toggle_props :: "app_state \<Rightarrow> app_cb toggle_props" where
  "alert_toggle_props s =
     \<lparr>tg_defaultValue = Some (toggle_default (openAlert s)),
      tg_onChange = Some (\<lambda>v t. t\<lparr>openAlert := toggle_value_open v\<rparr>)\<rparr>"

definition paper_toggle_props :: "app_state \<Rightarrow> app_cb toggle_props" where
  "paper_toggle_props s =
     \<lparr>tg_defaultValue = Some (toggle_default (open_paper s)),
      tg_onChange = Some (\<lambda>v t. t\<lparr>open_paper := toggle_value_open v\<rparr>)\<rparr>"

text \<open>\<^verbatim>\<open>MyCustomError\<close> (lines 197--201): a \<^verbatim>\<open>Box\<close> holding a constant text, the widgets' children.\<close>

definition MyCustomError :: js_string where
  "MyCustomError = ''Jugal sir jindabad''"

text \<open>
  Line 294: the alert's \<^verbatim>\<open>onClose\<close> is \<^verbatim>\<open>() => setOpen(false)\<close>, the setter of
  the paper's flag, as is the paper's (line 297). Neither widget gets \<^verbatim>\<open>onOk\<close>.
\<close>

definition alert_props :: "app_state \<Rightarrow> app_cb fb_props" where
  "alert_props s =
     \<lparr>fb_icon = selectedIcon s, fb_open = openAlert s,
      fb_onClose = Some (\<lambda>t. t\<lparr>open_paper := False\<rparr>), fb_onOk = None,
      fb_children = Some MyCustomError\<rparr>"

definition paper_props :: "app_state \<Rightarrow> app_cb fb_props" where
  "paper_props s =
     \<lparr>fb_icon = selectedIcon s, fb_open = open_paper s,
      fb_onClose = Some (\<lambda>t. t\<lparr>open_paper := False\<rparr>), fb_onOk = None,
      fb_children = Some MyCustomError\<rparr>"

subsection \<open>Rendering, events, commit\<close>

text \<open>The tree \<^verbatim>\<open>App\<close> returns (lines 283--301); a child that throws fails the render.\<close>

definition app_render :: "app_state \<Rightarrow> render_error + app_view" where
  "app_render s =
     (case alert_render (alert_props s) (alert_inst s) of
        Inl e \<Rightarrow> Inl e
      | Inr av \<Rightarrow>
          (case paper_render (paper_props s) (paper_inst s) of
             Inl e \<Rightarrow> Inl e
           | Inr pv \<Rightarrow>
               Inr \<lparr>view_radio = radio_render app_radio_props (radio_checked s),
                    view_alert_toggle = toggle_render (alert_toggle_props s),
                    view_paper_toggle = toggle_render (paper_toggle_props s),
                    view_alert = av, view_paper = pv\<rparr>))"

fun app_handle :: "app_event \<Rightarrow> app_state \<Rightarrow> app_state" where
  "app_handle (SelectIcon v) s =
     (case radio_click app_radio_props (radio_checked s) v of
        (c, cbs) \<Rightarrow> invoke_all cbs (s\<lparr>radio_checked := c\<rparr>))"
| "app_handle (ClickAlertToggle b) s = invoke_all (toggle_click (alert_toggle_props s) b) s"
| "app_handle (ClickPaperToggle b) s = invoke_all (toggle_click (paper_toggle_props s) b) s"
| "app_handle (AlertAction a) s = invoke_all (alert_dispatch (alert_props s) (alert_inst s) a) s"
| "app_handle (PaperAction a) s = invoke_all (paper_dispatch (paper_props s) (paper_inst s) a) s"
| "app_handle AlertExited s = s\<lparr>alert_inst := fb_exit_done (openAlert s) (alert_inst s)\<rparr>"
| "app_handle PaperExited s = s\<lparr>paper_inst := fb_exit_done (open_paper s) (paper_inst s)\<rparr>"

definition app_commit :: "app_state \<Rightarrow> app_state" where
  "app_commit s =
     s\<lparr>alert_inst := fb_commit (openAlert s) (alert_inst s),
       paper_inst := fb_commit (open_paper s) (paper_inst s)\<rparr>"

definition app_step :: "app_event \<Rightarrow> app_state \<Rightarrow> app_state" where
  "app_step e s = app_commit (app_handle e s)"

text \<open>The state of the first render (before any commit) and after mounting.\<close>

definition app_initial :: app_state where
  "app_initial =
     \<lparr>open_paper = False, openAlert = False, selectedIcon = ''info'',
      radio_checked = radio_init app_radio_props,
      alert_inst = fb_instance_init, paper_inst = fb_instance_init\<rparr>"

definition app_mounted :: app_state where
  "app_mounted = app_commit app_initial"

fun app_run :: "app_event list \<Rightarrow> app_state \<Rightarrow> app_state" where
  "app_run [] s = s"
| "app_run (e # es) s = app_run es (app_step e s)"

inductive app_reachable :: "app_state \<Rightarrow> bool" where
  mount: "app_reachable app_mounted"
| step: "app_reachable s \<Longrightarrow> app_reachable (app_step e s)"

text \<open>
  The invariant of the committed states: the selected icon is a key of the
  table, the radio group's own checked value agrees with it, both refs are
  attached, and an open popper has started its enter transition.
\<close>

definition app_inv :: "app_state \<Rightarrow> bool" where
  "app_inv s \<longleftrightarrow>
     selectedIcon s \<in> set icon_keys \<and> radio_checked s = selectedIcon s \<and>
     fi_anchor (alert_inst s) \<and> fi_anchor (paper_inst s) \<and>
     (openAlert s \<longrightarrow> \<not> fi_exited (alert_inst s)) \<and>
     (open_paper s \<longrightarrow> \<not> fi_exited (paper_inst s))"

declare handleChange_def [model_defs] toggle_default_def [model_defs]
  app_radio_props_def [model_defs] alert_toggle_props_def [model_defs]
  paper_toggle_props_def [model_defs] alert_props_def [model_defs] paper_props_def [model_defs]
  app_commit_def [model_defs] app_step_def [model_defs]

lemma toggle_value_open_values [simp]:
  "toggle_value_open (Some ''Open'')"
  "\<not> toggle_value_open (Some ''Close'')"
  "\<not> toggle_value_open None"
  by (simp_all add: toggle_value_open_def) code_simp+

lemmas app_callback_defs = alert_props_def paper_props_def alert_toggle_props_def
  paper_toggle_props_def app_radio_props_def handleChange_def

subsection \<open>The invariant\<close>

lemma app_inv_commit:
  "selectedIcon s \<in> set icon_keys \<Longrightarrow> radio_checked s = selectedIcon s \<Longrightarrow> app_inv (app_commit s)"
  by (simp add: app_inv_def app_commit_def fb_commit_def)

lemma app_commit_inv: "app_inv s \<Longrightarrow> app_commit s = s"
  by (simp add: app_inv_def app_commit_def fb_commit_def)

lemma app_handle_frame:
  assumes "selectedIcon s \<in> set icon_keys" "radio_checked s = selectedIcon s"
  shows "selectedIcon (app_handle e s) \<in> set icon_keys \<and>
         radio_checked (app_handle e s) = selectedIcon (app_handle e s) \<and>
         fi_anchor (alert_inst (app_handle e s)) = fi_anchor (alert_inst s) \<and>
         fi_anchor (paper_inst (app_handle e s)) = fi_anchor (paper_inst s)"
proof (cases e)
  case (SelectIcon v)
  then show ?thesis using assms by (simp add: radio_click_def app_callback_defs)
next
  case (ClickAlertToggle b)
  then show ?thesis using assms by (simp add: toggle_click_eq app_callback_defs)
next
  case (ClickPaperToggle b)
  then show ?thesis using assms by (simp add: toggle_click_eq app_callback_defs)
next
  case (AlertAction a)
  then show ?thesis using assms
    by (cases a) (simp_all add: alert_dispatch_def app_callback_defs handleActionCloseClick_def
        handleActionOkClick_def alert_actions_def)
next
  case (PaperAction a)
  then show ?thesis using assms
    by (cases a) (simp_all add: paper_dispatch_def app_callback_defs handleActionCloseClick_def
        handleActionOkClick_def)
qed (simp_all add: assms fb_exit_done_def)

lemma app_inv_mounted: "app_inv app_mounted"
  by (simp add: app_mounted_def app_inv_commit app_initial_def radio_init_def app_radio_props_def icon_keys_eq)

lemma app_inv_step:
  assumes "app_inv s"
  shows "app_inv (app_step e s)"
proof -
  from assms have "selectedIcon s \<in> set icon_keys" "radio_checked s = selectedIcon s"
    by (simp_all add: app_inv_def)
  then have "selectedIcon (app_handle e s) \<in> set icon_keys"
    "radio_checked (app_handle e s) = selectedIcon (app_handle e s)"
    using app_handle_frame by blast+
  then show ?thesis unfolding app_step_def by (rule app_inv_commit)
qed

lemma app_reachable_inv: "app_reachable s \<Longrightarrow> app_inv s"
  by (induction rule: app_reachable.induct) (simp_all add: app_inv_mounted app_inv_step)

lemma app_render_defined:
  assumes "selectedIcon s \<in> set icon_keys"
  shows "\<exists>v. app_render s = Inr v \<and> view_radio v = radio_render app_radio_props (radio_checked s)
           \<and> alert_render (alert_props s) (alert_inst s) = Inr (view_alert v)
           \<and> paper_render (paper_props s) (paper_inst s) = Inr (view_paper v)
           \<and> av_anchor (view_alert v) = fi_anchor (alert_inst s)
           \<and> pv_anchor (view_paper v) = fi_anchor (paper_inst s)
           \<and> av_severity (view_alert v) = resolve_severity (selectedIcon s)
           \<and> pv_icon_color (view_paper v) = resolve_severity (selectedIcon s)
           \<and> pv_ok_color (view_paper v) = resolve_severity (selectedIcon s)"
proof -
  from assms obtain av where av: "alert_render (alert_props s) (alert_inst s) = Inr av"
      "av_anchor av = fi_anchor (alert_inst s)" "av_severity av = resolve_severity (selectedIcon s)"
    using alert_render_defined [of "alert_props s"] by (auto simp: alert_props_def)
  from assms obtain pv where pv: "paper_render (paper_props s) (paper_inst s) = Inr pv"
      "pv_anchor pv = fi_anchor (paper_inst s)"
      "pv_icon_color pv = resolve_severity (selectedIcon s)"
      "pv_ok_color pv = resolve_severity (selectedIcon s)"
    using paper_render_defined [of "paper_props s"] by (auto simp: paper_props_def)
  from av pv show ?thesis by (simp add: app_render_def)
qed

lemma openAlert_commit [simp]: "openAlert (app_commit s) = openAlert s"
  by (simp add: app_commit_def)

lemma open_paper_commit [simp]: "open_paper (app_commit s) = open_paper s"
  by (simp add: app_commit_def)

subsection \<open>Properties\<close>



text \<open>
  C25. From every reachable state the screen can be brought back to the state it
  mounted in, keeping only the selected icon: closing both toggles and letting
  both exit transitions end unmounts both widgets and restores every other part
  of the state.
\<close>

theorem app_reset_reachable:
  assumes "app_reachable s"
  shows "app_run [ClickAlertToggle ''Close'', AlertExited, ClickPaperToggle ''Close'', PaperExited] s =
           app_mounted\<lparr>selectedIcon := selectedIcon s, radio_checked := selectedIcon s\<rparr>"
proof -
  from assms have "app_inv s" by (rule app_reachable_inv)
  then have "fi_anchor (alert_inst s)" "fi_anchor (paper_inst s)" "radio_checked s = selectedIcon s"
    by (simp_all add: app_inv_def)
  then show ?thesis
    by (cases s) (simp add: app_step_def toggle_click_eq toggle_values_def alert_toggle_props_def
      paper_toggle_props_def exclusive_change_def toggle_default_def app_commit_def fb_commit_def
      fb_exit_done_def app_mounted_def app_initial_def fb_instance_init_def)
qed

theorem app_reset_reachable_witness:
  "app_reachable (app_step (ClickAlertToggle ''Open'') (app_step (SelectIcon ''error'') app_mounted)) \<and>
   app_run [ClickAlertToggle ''Close'', AlertExited, ClickPaperToggle ''Close'', PaperExited]
     (app_step (ClickAlertToggle ''Open'') (app_step (SelectIcon ''error'') app_mounted)) =
   app_mounted\<lparr>selectedIcon := selectedIcon (app_step (ClickAlertToggle ''Open'') (app_step (SelectIcon ''error'') app_mounted)),
     radio_checked := selectedIcon (app_step (ClickAlertToggle ''Open'') (app_step (SelectIcon ''error'') app_mounted))\<rparr>"
proof -
  have r: "app_reachable (app_step (ClickAlertToggle ''Open'') (app_step (SelectIcon ''error'') app_mounted))"
    by (intro app_reachable.step app_reachable.mount)
  show ?thesis using r app_reset_reachable [OF r] by blast
qed

text \<open>
  C24. In every reachable state both widgets render \<^verbatim>\<open>MyCustomError\<close> as their
  content, and since App always passes \<^verbatim>\<open>onClose\<close>, the paper shows the close
  icon button and never its Cancel button.
\<close>

theorem widgets_show_custom_error:
  assumes "app_reachable s"
  shows "\<exists>v. app_render s = Inr v \<and> av_content (view_alert v) = Some MyCustomError \<and>
           pv_content (view_paper v) = Some MyCustomError \<and>
           pv_close_control (view_paper v) = CloseIconButton CloseRounded"
proof -
  from assms have "app_inv s" by (rule app_reachable_inv)
  then have "selectedIcon s \<in> set icon_keys" by (simp add: app_inv_def)
  then obtain v where v: "app_render s = Inr v"
      "alert_render (alert_props s) (alert_inst s) = Inr (view_alert v)"
      "paper_render (paper_props s) (paper_inst s) = Inr (view_paper v)"
    using app_render_defined by blast
  from render_children(1) [OF v(2)] render_children(2) [OF v(3)] v(1) show ?thesis
    by (simp add: alert_props_def paper_props_def paper_close_control_def)
qed

theorem widgets_show_custom_error_witness:
  "app_reachable (app_step (ClickPaperToggle ''Open'') app_mounted) \<and>
   (\<exists>v. app_render (app_step (ClickPaperToggle ''Open'') app_mounted) = Inr v \<and>
      av_content (view_alert v) = Some MyCustomError \<and> pv_content (view_paper v) = Some MyCustomError \<and>
      pv_close_control (view_paper v) = CloseIconButton CloseRounded)"
proof -
  have r: "app_reachable (app_step (ClickPaperToggle ''Open'') app_mounted)"
    by (rule app_reachable.step [OF app_reachable.mount])
  show ?thesis using r widgets_show_custom_error [OF r] by blast
qed

text \<open>
  C21. In every reachable state the radio option of the selected icon shows the
  checked icon \<^verbatim>\<open>BpCheckedIcon\<close> and every other option the unchecked
  \<^verbatim>\<open>BpIcon\<close>: the styled controls follow the selection.
\<close>

theorem radio_icons_follow_selection:
  assumes "app_reachable s"
  shows "\<exists>v. app_render s = Inr v \<and>
           rv_icons (view_radio v) =
             map (\<lambda>k. Some (JElem (if k = selectedIcon s then BpCheckedIconEl else BpIconEl))) icon_keys"
proof -
  from assms have "app_inv s" by (rule app_reachable_inv)
  then have c: "radio_checked s = selectedIcon s" "selectedIcon s \<in> set icon_keys"
    by (simp_all add: app_inv_def)
  from c(2) obtain v where "app_render s = Inr v" "view_radio v = radio_render app_radio_props (radio_checked s)"
    using app_render_defined by blast
  with c(1) show ?thesis by (simp add: radio_render_icons app_radio_props_def)
qed

theorem radio_icons_follow_selection_witness:
  "app_reachable (app_step (SelectIcon ''report'') app_mounted) \<and>
   (\<exists>v. app_render (app_step (SelectIcon ''report'') app_mounted) = Inr v \<and>
      rv_icons (view_radio v) =
        map (\<lambda>k. Some (JElem (if k = selectedIcon (app_step (SelectIcon ''report'') app_mounted)
                               then BpCheckedIconEl else BpIconEl))) icon_keys)"
proof -
  have r: "app_reachable (app_step (SelectIcon ''report'') app_mounted)"
    by (rule app_reachable.step [OF app_reachable.mount])
  show ?thesis using r radio_icons_follow_selection [OF r] by blast
qed


text \<open>
  C1. Dismissing the alert (its close button, the only control it renders) runs the
  \<^verbatim>\<open>onClose\<close> App passes on line 294, \<^verbatim>\<open>() => setOpen(false)\<close>: it closes the
  paper widget and leaves the alert open. The step is exactly that update.
\<close>

theorem alert_dismiss_closes_paper:
  assumes "openAlert s"
  shows "app_step (AlertAction ClickClose) s = app_commit (s\<lparr>open_paper := False\<rparr>)
         \<and> openAlert (app_step (AlertAction ClickClose) s)"
  using assms by (simp add: app_step_def alert_dispatch_close alert_props_def popper_mounted_def)

theorem alert_dismiss_closes_paper_witness:
  "openAlert (app_step (ClickAlertToggle ''Open'') app_mounted) \<and>
   (let s = app_step (ClickAlertToggle ''Open'') app_mounted in
      app_step (AlertAction ClickClose) s = app_commit (s\<lparr>open_paper := False\<rparr>)
      \<and> openAlert (app_step (AlertAction ClickClose) s))"
proof -
  have o: "openAlert (app_step (ClickAlertToggle ''Open'') app_mounted)"
    by (simp add: app_step_def app_mounted_def app_initial_def toggle_click_eq toggle_values_def
        alert_toggle_props_def exclusive_change_def toggle_default_def)
  show ?thesis using o alert_dismiss_closes_paper [OF o] by (simp add: Let_def)
qed

text \<open>
  C2. Every render after mounting succeeds (no \<^verbatim>\<open>Icons[icon]\<close> is undefined),
  both the render right after an event and the committed one, and both poppers
  read an attached anchor element.
\<close>

theorem app_renders_succeed:
  assumes "app_reachable s"
  shows "(\<exists>v. app_render s = Inr v \<and> av_anchor (view_alert v) \<and> pv_anchor (view_paper v)) \<and>
         (\<exists>v. app_render (app_handle e s) = Inr v \<and> av_anchor (view_alert v) \<and> pv_anchor (view_paper v))"
proof -
  from assms have inv: "app_inv s" by (rule app_reachable_inv)
  then have h: "selectedIcon (app_handle e s) \<in> set icon_keys"
    "fi_anchor (alert_inst (app_handle e s)) = fi_anchor (alert_inst s)"
    "fi_anchor (paper_inst (app_handle e s)) = fi_anchor (paper_inst s)"
    using app_handle_frame [of s e] by (simp_all add: app_inv_def)
  with inv show ?thesis
    using app_render_defined [of s] app_render_defined [of "app_handle e s"]
    by (auto simp: app_inv_def)
qed

theorem app_renders_succeed_witness:
  "app_reachable app_mounted \<and>
   (\<exists>v. app_render app_mounted = Inr v \<and> av_anchor (view_alert v) \<and> pv_anchor (view_paper v)) \<and>
   (\<exists>v. app_render (app_handle (SelectIcon ''error'') app_mounted) = Inr v \<and>
        av_anchor (view_alert v) \<and> pv_anchor (view_paper v))"
  using app_renders_succeed [OF app_reachable.mount, of "SelectIcon ''error''"]
  by (simp add: app_reachable.mount)

text \<open>
  C3. Clicking a toggle's \<^verbatim>\<open>Open\<close> button flips the flag: when the flag is
  already set, the exclusive group passes \<^verbatim>\<open>null\<close> and
  \<^verbatim>\<open>null?.toLowerCase() === "open"\<close> is false, so the widget closes.
\<close>

theorem toggle_open_flips:
  "openAlert (app_step (ClickAlertToggle ''Open'') s) = (\<not> openAlert s) \<and>
   open_paper (app_step (ClickPaperToggle ''Open'') s) = (\<not> open_paper s)"
  by (simp add: app_step_def toggle_click_eq toggle_values_def alert_toggle_props_def
      paper_toggle_props_def exclusive_change_def toggle_default_def)

text \<open>
  C13. Clicking a toggle's \<^verbatim>\<open>Close\<close> button always leaves the flag cleared.
\<close>

theorem toggle_close_closes:
  "\<not> openAlert (app_step (ClickAlertToggle ''Close'') s) \<and>
   \<not> open_paper (app_step (ClickPaperToggle ''Close'') s)"
  by (simp add: app_step_def toggle_click_eq toggle_values_def alert_toggle_props_def
      paper_toggle_props_def exclusive_change_def toggle_default_def)

text \<open>
  C5. In every reachable state the selected icon is a key of \<^verbatim>\<open>Icons\<close>, although
  the cast on line 281 checks nothing, and the radio group's own checked value
  agrees with \<^verbatim>\<open>selectedIcon\<close>.
\<close>

theorem app_reachable_icon_valid:
  "app_reachable s \<Longrightarrow> icon_lookup (selectedIcon s) \<noteq> None \<and> radio_checked s = selectedIcon s"
  by (drule app_reachable_inv) (simp add: app_inv_def)

theorem app_reachable_icon_valid_witness:
  "app_reachable (app_step (SelectIcon ''warning'') app_mounted) \<and>
   icon_lookup (selectedIcon (app_step (SelectIcon ''warning'') app_mounted)) \<noteq> None \<and>
   radio_checked (app_step (SelectIcon ''warning'') app_mounted) =
     selectedIcon (app_step (SelectIcon ''warning'') app_mounted)"
proof -
  have r: "app_reachable (app_step (SelectIcon ''warning'') app_mounted)"
    by (rule app_reachable.step [OF app_reachable.mount])
  show ?thesis using r app_reachable_icon_valid [OF r] by simp
qed

text \<open>
  C6. Closing the open paper (its close icon button) clears exactly \<^verbatim>\<open>open\<close>;
  the paper then stays mounted until its exit transition ends.
\<close>

theorem paper_close_closes:
  assumes "app_reachable s" and "open_paper s"
  shows "app_step (PaperAction ClickClose) s = s\<lparr>open_paper := False\<rparr>"
proof -
  from assms(1) have "app_inv s" by (rule app_reachable_inv)
  then have inv': "app_inv (s\<lparr>open_paper := False\<rparr>)" by (simp add: app_inv_def)
  from assms(2) have "paper_dispatch (paper_props s) (paper_inst s) ClickClose = [\<lambda>t. t\<lparr>open_paper := False\<rparr>]"
    using paper_dispatch_mounted [of "paper_props s"] by (simp add: paper_props_def popper_mounted_def)
  with inv' show ?thesis by (simp add: app_step_def app_commit_inv)
qed

theorem paper_close_closes_witness:
  "app_reachable (app_step (ClickPaperToggle ''Open'') app_mounted) \<and>
   open_paper (app_step (ClickPaperToggle ''Open'') app_mounted) \<and>
   app_step (PaperAction ClickClose) (app_step (ClickPaperToggle ''Open'') app_mounted) =
     (app_step (ClickPaperToggle ''Open'') app_mounted)\<lparr>open_paper := False\<rparr>"
proof -
  have r: "app_reachable (app_step (ClickPaperToggle ''Open'') app_mounted)"
    by (rule app_reachable.step [OF app_reachable.mount])
  have o: "open_paper (app_step (ClickPaperToggle ''Open'') app_mounted)"
    by (simp add: app_step_def app_mounted_def app_initial_def toggle_click_eq toggle_values_def
        paper_toggle_props_def exclusive_change_def toggle_default_def)
  show ?thesis using r o paper_close_closes [OF r o] by simp
qed

text \<open>
  C7. The paper's OK button does nothing: App passes no \<^verbatim>\<open>onOk\<close>.
\<close>

theorem paper_ok_does_nothing:
  "app_reachable s \<Longrightarrow> app_step (PaperAction ClickOk) s = s"
  using app_reachable_inv [of s] app_commit_inv [of s]
  by (simp add: app_step_def paper_dispatch_def paper_props_def handleActionOkClick_def)

theorem paper_ok_does_nothing_witness:
  "app_reachable app_mounted \<and> app_step (PaperAction ClickOk) app_mounted = app_mounted"
  using paper_ok_does_nothing [OF app_reachable.mount] by (simp add: app_reachable.mount)

text \<open>
  C12. In every reachable state the radio group marks exactly one option checked,
  the selected icon.
\<close>

theorem radio_shows_selected:
  assumes "app_reachable s"
  shows "map fst (filter (\<lambda>x. snd (snd x)) (rv_options (radio_render app_radio_props (radio_checked s))))
         = [selectedIcon s]"
proof -
  from assms have "app_inv s" by (rule app_reachable_inv)
  then have c: "radio_checked s = selectedIcon s" "selectedIcon s \<in> set icon_keys"
    by (simp_all add: app_inv_def)
  have d: "distinct icon_keys" by (simp add: icon_keys_eq)
  have "map fst (filter (\<lambda>x. snd (snd x)) (rv_options (radio_render app_radio_props (selectedIcon s))))
        = filter (\<lambda>v. v = selectedIcon s) icon_keys"
    by (simp add: radio_checked_options app_radio_props_def)
  also have "\<dots> = [selectedIcon s]" using d c(2) by (rule filter_eq_single)
  finally show ?thesis using c(1) by simp
qed

theorem radio_shows_selected_witness:
  "app_reachable app_mounted \<and>
   map fst (filter (\<lambda>x. snd (snd x)) (rv_options (radio_render app_radio_props (radio_checked app_mounted))))
     = [selectedIcon app_mounted]"
  using radio_shows_selected [OF app_reachable.mount] by (simp add: app_reachable.mount)

text \<open>
  C15. From any state, clicking the alert toggle's \<^verbatim>\<open>Close\<close> and letting the exit
  transition finish unmounts the alert.
\<close>

theorem alert_can_be_hidden:
  "\<not> openAlert (app_run [ClickAlertToggle ''Close'', AlertExited] s) \<and>
         \<not> popper_mounted (openAlert (app_run [ClickAlertToggle ''Close'', AlertExited] s))
             (fi_exited (alert_inst (app_run [ClickAlertToggle ''Close'', AlertExited] s)))"
  by (simp add: app_step_def toggle_click_eq toggle_values_def alert_toggle_props_def
      exclusive_change_def toggle_default_def popper_mounted_def app_commit_def fb_commit_def fb_exit_done_def)


text \<open>
  C10. The exit window: after the alert is closed with its toggle, the popper keeps
  the alert mounted until the exit transition ends, and its close button still
  fires a callback (which, as C1 shows, closes the paper).
\<close>

theorem exit_window_dismiss:
  assumes "app_reachable s" and "openAlert s"
  shows "\<not> openAlert (app_step (ClickAlertToggle ''Close'') s) \<and>
         alert_dispatch (alert_props (app_step (ClickAlertToggle ''Close'') s))
           (alert_inst (app_step (ClickAlertToggle ''Close'') s)) ClickClose \<noteq> []"
proof -
  from assms(1) have "app_inv s" by (rule app_reachable_inv)
  with assms(2) have "\<not> fi_exited (alert_inst s)" by (simp add: app_inv_def)
  then show ?thesis
    by (simp add: app_step_def toggle_click_eq toggle_values_def alert_toggle_props_def
        exclusive_change_def toggle_default_def app_commit_def fb_commit_def alert_dispatch_def
        alert_props_def popper_mounted_def alert_actions_def handleActionCloseClick_def)
qed

theorem exit_window_dismiss_witness:
  "app_reachable (app_step (ClickAlertToggle ''Open'') app_mounted) \<and>
   openAlert (app_step (ClickAlertToggle ''Open'') app_mounted) \<and>
   \<not> openAlert (app_step (ClickAlertToggle ''Close'') (app_step (ClickAlertToggle ''Open'') app_mounted)) \<and>
   alert_dispatch (alert_props (app_step (ClickAlertToggle ''Close'') (app_step (ClickAlertToggle ''Open'') app_mounted)))
     (alert_inst (app_step (ClickAlertToggle ''Close'') (app_step (ClickAlertToggle ''Open'') app_mounted)))
     ClickClose \<noteq> []"
proof -
  have r: "app_reachable (app_step (ClickAlertToggle ''Open'') app_mounted)"
    by (rule app_reachable.step [OF app_reachable.mount])
  have o: "openAlert (app_step (ClickAlertToggle ''Open'') app_mounted)"
    by (simp add: app_step_def app_mounted_def app_initial_def toggle_click_eq toggle_values_def
        alert_toggle_props_def exclusive_change_def toggle_default_def)
  show ?thesis using r o exit_window_dismiss [OF r o] by simp
qed

end
