(* ===== verification/Spec2Isabelle.thy ===== *)
theory Spec2Isabelle
  imports App
begin

text \<open>
  Verification model of \<^verbatim>\<open>src/src/App.tsx\<close>, the repository's single source
  file: a React demo screen built on Material UI with two floating notification
  widgets, two Open/Close toggles and a radio group of styled icons.

  \<^bold>\<open>Parts of the program and how they interact.\<close>
  \<^item> JavaScript vocabulary: theory \<^verbatim>\<open>Prelude\<close> (optional calls \<^verbatim>\<open>f?.()\<close>,
    \<^verbatim>\<open>toLowerCase\<close>, the ordered run of state setters \<open>invoke_all\<close>) and
    theory \<^verbatim>\<open>JsObject\<close> (objects as association lists in insertion order,
    property assignment \<open>js_set\<close>, the spread \<open>js_spread\<close>).
  \<^item> The icon table \<^verbatim>\<open>Icons\<close> (lines 5--12) and the severity resolver (the
    nested conditional at lines 61--64 and 113--116): theories \<^verbatim>\<open>Icons\<close>
    (\<open>Icons\<close>, \<open>icon_keys\<close> for \<^verbatim>\<open>Object.keys\<close>, \<open>icon_lookup\<close> for
    \<^verbatim>\<open>Icons[icon]\<close> with \<^verbatim>\<open>undefined\<close> as \<open>None\<close>, \<open>key_of\<close> for the
    TypeScript type \<^verbatim>\<open>keyof typeof Icons\<close>) and \<^verbatim>\<open>Severity\<close>
    (\<open>resolve_severity\<close> on the run-time string, \<open>spec_severity\<close> the spec's
    table on the datatype \<open>icon_kind\<close>).
  \<^item> The theme (lines 14--41): theory \<^verbatim>\<open>Theme\<close>, a record of the overridden
    easings and durations and the default palette, and \<open>decimal_string\<close> /
    \<open>ms_string\<close> for the template literal \<^verbatim>\<open>`${...}ms`\<close>.
  \<^item> \<^verbatim>\<open>AlertFloatingBottom\<close> and \<^verbatim>\<open>PaperFloatingBottom\<close> (lines 43--162):
    theory \<^verbatim>\<open>Widgets\<close>. Props \<open>fb_props\<close> (children as their text); the
    instance state \<open>fb_instance\<close> is what React and the library keep between
    renders (the popper's \<^verbatim>\<open>exited\<close> flag and whether the anchor ref is
    attached); \<open>alert_render\<close> / \<open>paper_render\<close> compute the rendered tree as
    a record (backdrop \<^verbatim>\<open>sx\<close>, popper, slide, the \<^verbatim>\<open>Paper\<close>'s \<^verbatim>\<open>sx\<close>
    \<open>paper_layout\<close>, icon, content, buttons), \<open>Inl InvalidElementType\<close> when
    \<^verbatim>\<open><Icon />\<close> would be rendered with an undefined component;
    \<open>alert_dispatch\<close> / \<open>paper_dispatch\<close> return the callbacks a click invokes.
  \<^item> \<^verbatim>\<open>ErrorToggleButton\<close> (lines 165--195): theory \<^verbatim>\<open>Toggle\<close>, with the
    exclusive group's rule \<open>exclusive_change\<close> (the selected button passes
    \<^verbatim>\<open>null\<close>).
  \<^item> \<^verbatim>\<open>BpIcon\<close>, \<^verbatim>\<open>BpCheckedIcon\<close>, \<^verbatim>\<open>BpRadio\<close> (lines 203--256): theory
    \<^verbatim>\<open>Styles\<close>. Style objects with nested selector blocks; the composition
    \<^verbatim>\<open>styled(BpIcon)({...})\<close> as the list of its style objects
    (\<open>styled_styles\<close>) and its effective style \<open>css_effective\<close>, a key-wise
    merge; the theme \<^verbatim>\<open>styled\<close> receives (\<open>default_theme_mode\<close>);
    \<^verbatim>\<open>BpRadio\<close>'s spread of its props over four defaults and the icon
    \<^verbatim>\<open>Radio\<close> shows (\<open>mui_radio_icon\<close>).
  \<^item> \<^verbatim>\<open>RadioButtons\<close> (lines 258--272): theory \<^verbatim>\<open>Radio\<close>, an uncontrolled
    group whose checked value is threaded through \<open>radio_click\<close>; its view
    records, per option, the icon its \<^verbatim>\<open><BpRadio />\<close> shows.
  \<^item> \<^verbatim>\<open>MyCustomError\<close> (lines 197--201) and \<^verbatim>\<open>App\<close> (lines 274--302):
    theory \<^verbatim>\<open>App\<close>, the state machine. The three \<^verbatim>\<open>useState\<close> hooks and
    the children's state form \<open>app_state\<close>; the closures App passes down are
    state transformers; \<open>app_handle\<close> dispatches an event to the child and
    runs the callbacks it returns (\<open>invoke_all\<close>), \<open>app_commit\<close> is React's
    commit (enter transitions start, refs attach), \<open>app_step\<close> composes the
    two, \<open>app_run\<close> runs a list of events, \<open>app_reachable\<close> is the inductive
    set of states reachable from the mounted screen.
  Components talk only through callbacks and props: a widget's lemmas are stated
  for any callback type \<open>'cb\<close>, and App instantiates it with
  \<open>app_state \<Rightarrow> app_state\<close>.

  \<^bold>\<open>What the lemmas show.\<close>
  \<^item> Resolver: it refines the spec's table on every string.
  \<^item> Icon table: it is injective and never yields the close glyph.
  \<^item> Reachable states: the invariant \<open>app_inv\<close> (valid icon, radio agrees,
    anchors attached, an open popper has entered) holds in every reachable
    state, by rule induction. From it: every render succeeds and reads an
    attached anchor; exactly the selected radio option is checked and shows
    \<^verbatim>\<open>BpCheckedIcon\<close>; the severity, backdrop gradients and paper border
    follow the spec's severity of the selected icon; both widgets show
    \<^verbatim>\<open>MyCustomError\<close>.
  \<^item> Error path: a render fails exactly when a mounted popper has an
    undefined icon.
  \<^item> Widgets: they invoke callbacks only while mounted, at most one per click,
    and the alert never invokes \<^verbatim>\<open>onOk\<close>.
  \<^item> App events: each event's effect is stated exactly. Only three kinds of
    event can close the paper. From every reachable state, four events
    restore the mounted screen.
  \<^item> Styles: the key-wise merge of style objects equals the cascade (a helper
    lemma for any well-formed objects). From it, the checked icon differs from
    \<^verbatim>\<open>BpIcon\<close> exactly in its fill and its \<^verbatim>\<open>::before\<close> dot, in either
    palette mode.

  \<^bold>\<open>Findings.\<close> The alert's \<^verbatim>\<open>onClose\<close> is \<^verbatim>\<open>setOpen(false)\<close>, so dismissing
  the alert closes the paper and never the alert. Clicking the already
  selected \<^verbatim>\<open>Open\<close> button closes the widget, because the exclusive group
  passes \<^verbatim>\<open>null\<close>. During the exit transition a closed widget is still
  clickable. Both widgets use the DOM id \<^verbatim>\<open>floatingbottomcomponent\<close>. The
  paper's OK button does nothing, because App passes no \<^verbatim>\<open>onOk\<close>; its Cancel
  button is never shown, because App always passes \<^verbatim>\<open>onClose\<close>. The icons'
  dark-mode colours are never used: without a \<^verbatim>\<open>ThemeProvider\<close>,
  \<^verbatim>\<open>styled\<close> gets the default light theme.

  \<^bold>\<open>Bounds and fuel.\<close> There are no loops: every definition is structural or
  non-recursive, except \<open>decimal_string\<close> (JavaScript's number-to-string
  for the \<^verbatim>\<open>ms\<close> template literal), which terminates on \<open>n div 10\<close>.
  Runs are lists of events (\<open>app_run\<close>), so no fuel is needed. Durations are
  small naturals; no machine-integer width matters.

  \<^bold>\<open>Not modelled.\<close> Animation timing: the model keeps only the order of
  events, entering and the end of the exit. CSS specificity between different
  selectors and the browser's computed style: the style model stops at the
  declarations the cascade applies per selector. The inner \<^verbatim>\<open>Box\<close> margins
  of the widgets (\<^verbatim>\<open>mx\<close>, \<^verbatim>\<open>gap\<close>), which are constants. Material UI and
  emotion are modelled only where the code relies on them: Popper mounting
  with \<^verbatim>\<open>transition\<close>, the exclusive ToggleButtonGroup, the uncontrolled
  RadioGroup, the Alert's close button, Radio's icon choice,
  FormControlLabel's \<^verbatim>\<open>value\<close>, and the order of composed styles.
\<close>

text \<open>
  C19. Across the components: in every reachable state the icon names an icon
  kind, and both widgets show the spec's severity of that kind (the alert's
  severity, the paper's icon colour and OK colour), so the severity never
  diverges from the icon.
\<close>

theorem severity_follows_icon:
  assumes "app_reachable s"
  shows "\<exists>k v. kind_of_key (selectedIcon s) = Some k \<and> app_render s = Inr v \<and>
           av_severity (view_alert v) = spec_severity k \<and>
           pv_icon_color (view_paper v) = spec_severity k \<and>
           pv_ok_color (view_paper v) = spec_severity k"
proof -
  from assms have "app_inv s" by (rule app_reachable_inv)
  then have valid: "selectedIcon s \<in> set icon_keys" by (simp add: app_inv_def)
  then obtain k where k: "selectedIcon s = key_of k" by (rule icon_keys_cases)
  from valid obtain v where "app_render s = Inr v"
      "av_severity (view_alert v) = resolve_severity (selectedIcon s)"
      "pv_icon_color (view_paper v) = resolve_severity (selectedIcon s)"
      "pv_ok_color (view_paper v) = resolve_severity (selectedIcon s)"
    using app_render_defined by blast
  with k show ?thesis by auto
qed

theorem severity_follows_icon_witness:
  "app_reachable (app_step (SelectIcon ''done'') app_mounted) \<and>
   (\<exists>k v. kind_of_key (selectedIcon (app_step (SelectIcon ''done'') app_mounted)) = Some k \<and>
      app_render (app_step (SelectIcon ''done'') app_mounted) = Inr v \<and>
      av_severity (view_alert v) = spec_severity k \<and>
      pv_icon_color (view_paper v) = spec_severity k \<and>
      pv_ok_color (view_paper v) = spec_severity k)"
proof -
  have r: "app_reachable (app_step (SelectIcon ''done'') app_mounted)"
    by (rule app_reachable.step [OF app_reachable.mount])
  show ?thesis using r severity_follows_icon [OF r] by blast
qed

text \<open>
  C26. Across the components: the paper's flag \<^verbatim>\<open>open\<close> is cleared only by the
  paper's close control, by a click on the paper's toggle, or by the alert's
  close button (the wiring of line 294). Selecting an icon, the alert's toggle,
  either OK button and the end of a transition never close the paper.
\<close>

theorem paper_closed_only_by:
  assumes "open_paper s" and "\<not> open_paper (app_step e s)"
  shows "e = AlertAction ClickClose \<or> e = PaperAction ClickClose \<or> (\<exists>b. e = ClickPaperToggle b)"
proof (rule ccontr)
  assume other: "\<not> ?thesis"
  have "open_paper (app_handle e s)"
  proof (cases e)
    case (SelectIcon v)
    then show ?thesis using assms(1) by (simp add: radio_click_def app_callback_defs)
  next
    case (ClickAlertToggle b)
    then show ?thesis using assms(1) by (simp add: toggle_click_eq app_callback_defs)
  next
    case (AlertAction a)
    with other have "a = ClickOk" by (cases a) simp_all
    with AlertAction show ?thesis using assms(1)
      by (simp add: alert_dispatch_def alert_props_def handleActionOkClick_def)
  next
    case (PaperAction a)
    with other have "a = ClickOk" by (cases a) simp_all
    with PaperAction show ?thesis using assms(1)
      by (simp add: paper_dispatch_def paper_props_def handleActionOkClick_def)
  next
    case (ClickPaperToggle b)
    with other show ?thesis by simp
  next
    case AlertExited
    with assms(1) show ?thesis by (simp add: fb_exit_done_def)
  next
    case PaperExited
    with assms(1) show ?thesis by (simp add: fb_exit_done_def)
  qed
  with assms(2) show False by (simp add: app_step_def)
qed

theorem paper_closed_only_by_witness:
  "open_paper (app_step (ClickPaperToggle ''Open'') app_mounted) \<and>
   \<not> open_paper (app_step (ClickPaperToggle ''Close'') (app_step (ClickPaperToggle ''Open'') app_mounted)) \<and>
   (ClickPaperToggle ''Close'' = AlertAction ClickClose \<or> ClickPaperToggle ''Close'' = PaperAction ClickClose \<or>
    (\<exists>b. ClickPaperToggle ''Close'' = ClickPaperToggle b))"
proof -
  have o: "open_paper (app_step (ClickPaperToggle ''Open'') app_mounted)"
    by (simp add: app_step_def app_mounted_def app_initial_def toggle_click_eq toggle_values_def
        paper_toggle_props_def exclusive_change_def toggle_default_def)
  have c: "\<not> open_paper (app_step (ClickPaperToggle ''Close'') (app_step (ClickPaperToggle ''Open'') app_mounted))"
    by (simp add: app_step_def toggle_click_eq toggle_values_def paper_toggle_props_def
        exclusive_change_def toggle_default_def)
  show ?thesis using o c paper_closed_only_by [OF o c] by blast
qed

end
